theory Spec2Isabelle
  imports Main "HOL-Library.Char_ord" "HOL-Library.List_Lexorder" "HOL-Library.Sublist"
begin

section \<open>Data model of the chat controller\<close>

text \<open>
  The controller \<^verbatim>\<open>src/controllers/chat.controller.js\<close> works on three mongoose
  collections (users, friendships, chats) and joins a fourth (messages). A stored id is
  an \<^verbatim>\<open>ObjectId\<close>; \<open>oid\<close> is its string, as \<^verbatim>\<open>toString()\<close> gives it. The ids of a
  request are strings of any form. JavaScript compares strings lexicographically by code
  unit, which is the order of \<open>List_Lexorder\<close> over \<open>Char_ord\<close>.
\<close>

type_synonym oid = string

text \<open>The status constants imported from \<^verbatim>\<open>utils/constants.js\<close>, kept symbolic.\<close>

datatype status = BAD_REQUEST | CREATED | INTERNAL_SERVER_ERROR | NOT_FOUND | OK | UNAUTHORIZED

record user =
  user_id :: oid
  name :: string
  profilePic :: string
  bio :: string

record friendship =
  userOneId :: oid
  userTwoId :: oid
  status :: string

datatype chat_type = OneToOne | Group

record chat =
  chat_id :: oid
  chatType :: chat_type
  participants :: "oid list"
  admins :: "oid list"
  groupName :: "string option"
  groupIcon :: "string option"
  lastMessageId :: "oid option"
  updatedAt :: nat

record message =
  msg_id :: oid
  messageType :: string
  content :: string

record db =
  users :: "user list"
  friendships :: "friendship list"
  chats :: "chat list"
  messages :: "message list"

text \<open>
  What the controller takes from mongoose and from MongoDB, as parameters of the model.
  \<^item> \<open>isValidObjectId\<close> is mongoose's test of a request field, \<open>None\<close> for
    \<^verbatim>\<open>undefined\<close>, on which mongoose releases differ.
  \<^item> \<open>castObjectId\<close> is the cast that mongoose applies to a string wherever an
    \<^verbatim>\<open>ObjectId\<close> is due (the argument of \<^verbatim>\<open>findById\<close>, a field of a query, an element
    pushed to an id array, a field of a created document): \<open>None\<close> when the string is
    no object id, and then mongoose raises a \<^verbatim>\<open>CastError\<close>. The 24 hexadecimal digits
    of an id cast to that id whatever the case of the letters.
  \<^item> \<open>regexValid\<close> and \<open>regexMatch\<close> are MongoDB's \<^verbatim>\<open>$regex\<close> with option \<^verbatim>\<open>i\<close>
    outside the part of it that is modelled below: whether the server takes the pattern,
    and whether the pattern matches a value.
\<close>

record env =
  isValidObjectId :: "string option \<Rightarrow> bool"
  castObjectId :: "string \<Rightarrow> oid option"
  regexValid :: "string \<Rightarrow> bool"
  regexMatch :: "string \<Rightarrow> string \<Rightarrow> bool"

text \<open>
  What a handler answers: \<^verbatim>\<open>next(new ApiError(code, msg))\<close> is \<open>Inl (ApiError code msg)\<close>,
  \<^verbatim>\<open>res.status(code).json(new ApiResponse(code, msg, data))\<close> is
  \<open>Inr (ApiResponse code msg data)\<close>. \<open>CastError\<close> is the exception mongoose raises
  on a string that is no object id, \<open>MongoServerError\<close> the one of a query the server
  refuses; \<^verbatim>\<open>asyncHandler\<close> hands them on.
\<close>

datatype api_error = ApiError status string | CastError string | MongoServerError string

datatype payload =
    NoData
  | ChatFound chat "message list" "user list"
  | ChatCreated chat "user list"
  | GroupSearch "(oid \<times> chat_type \<times> string option \<times> string option) list" nat bool
  | ChatList "(chat \<times> message option) list" nat bool "user list"

datatype api_response = ApiResponse status string payload

type_synonym outcome = "(api_error + api_response) \<times> db"

section \<open>JavaScript helpers\<close>

text \<open>\<^verbatim>\<open>String.prototype.trim\<close> on the code units below 256.\<close>

definition js_space :: "char \<Rightarrow> bool" where
  "js_space c = (c \<in> set [CHR 0x09, CHR 0x0A, CHR 0x0B, CHR 0x0C, CHR 0x0D, CHR 0x20, CHR 0xA0])"

definition js_trim :: "string \<Rightarrow> string" where
  "js_trim s = rev (dropWhile js_space (rev (dropWhile js_space s)))"

text \<open>
  The test \<^verbatim>\<open>!x || x.trim() === ""\<close> on a request field; an absent field
  (\<^verbatim>\<open>undefined\<close>) is \<open>None\<close>.
\<close>

definition blank :: "string option \<Rightarrow> bool" where
  "blank x = (case x of None \<Rightarrow> True | Some s \<Rightarrow> s = [] \<or> js_trim s = [])"

text \<open>
  Modelled from the spec: \<^verbatim>\<open>sortUserIds\<close> lives in \<^verbatim>\<open>utils/utility.js\<close>, which is not
  among the sources. The spec says it "computes the canonical sorted pair (smaller,
  larger)"; \<^verbatim>\<open>createGroupChat\<close> builds its pairs with the same comparison.
\<close>

definition sortUserIds :: "oid \<Rightarrow> oid \<Rightarrow> oid \<times> oid" where
  "sortUserIds a b = (if a < b then (a, b) else (b, a))"

section \<open>Collection access\<close>

text \<open>
  \<^verbatim>\<open>Model.findById(id)\<close> casts the string it is given and looks the id up; the result
  is the exception, or the document if there is one.
\<close>

definition User_findById :: "env \<Rightarrow> db \<Rightarrow> string \<Rightarrow> api_error + user option" where
  "User_findById m d i =
     (case castObjectId m i of
        None \<Rightarrow> Inl (CastError i)
      | Some k \<Rightarrow> Inr (find (\<lambda>u. user_id u = k) (users d)))"

definition Chat_findById :: "env \<Rightarrow> db \<Rightarrow> string \<Rightarrow> api_error + chat option" where
  "Chat_findById m d i =
     (case castObjectId m i of
        None \<Rightarrow> Inl (CastError i)
      | Some k \<Rightarrow> Inr (find (\<lambda>c. chat_id c = k) (chats d)))"

text \<open>
  \<^verbatim>\<open>Friendship.findOne({userOneId, userTwoId, status: "accepted"})\<close>, on ids, and on
  strings, which the query casts.
\<close>

definition Friendship_findAccepted :: "db \<Rightarrow> oid \<Rightarrow> oid \<Rightarrow> friendship option" where
  "Friendship_findAccepted d a b =
     find (\<lambda>f. userOneId f = a \<and> userTwoId f = b \<and> status f = ''accepted'') (friendships d)"

definition Friendship_findOne ::
  "env \<Rightarrow> db \<Rightarrow> string \<Rightarrow> string \<Rightarrow> api_error + friendship option" where
  "Friendship_findOne m d a b =
     (case castObjectId m a of
        None \<Rightarrow> Inl (CastError a)
      | Some x \<Rightarrow>
          (case castObjectId m b of
             None \<Rightarrow> Inl (CastError b)
           | Some y \<Rightarrow> Inr (Friendship_findAccepted d x y)))"

text \<open>The cast of a list of strings, as of the ids of an \<^verbatim>\<open>$in\<close>: the first failure raises.\<close>

fun cast_all :: "env \<Rightarrow> string list \<Rightarrow> api_error + oid list" where
  "cast_all m [] = Inr []"
| "cast_all m (s # ss) =
     (case castObjectId m s of
        None \<Rightarrow> Inl (CastError s)
      | Some k \<Rightarrow> (case cast_all m ss of Inl e \<Rightarrow> Inl e | Inr ks \<Rightarrow> Inr (k # ks)))"

text \<open>
  \<^verbatim>\<open>groupChat.save()\<close> writes the loaded document back over the stored one with its id.
\<close>

fun replace_chat :: "chat \<Rightarrow> chat list \<Rightarrow> chat list" where
  "replace_chat g [] = []"
| "replace_chat g (c # cs) = (if chat_id c = chat_id g then g # cs else c # replace_chat g cs)"

text \<open>
  Modelled from the spec: the chat schema (\<^verbatim>\<open>models/chat.model.js\<close>) is not among the
  sources, so whether a save touches \<^verbatim>\<open>updatedAt\<close> is not in the code at hand. The spec
  says \<^verbatim>\<open>updatedAt\<close> is "bumped on any mutation": a save stamps the time of the write.
\<close>

definition save :: "db \<Rightarrow> chat \<Rightarrow> nat \<Rightarrow> db" where
  "save d g now = d\<lparr>chats := replace_chat (g\<lparr>updatedAt := now\<rparr>) (chats d)\<rparr>"

section \<open>Group membership handlers\<close>

text \<open>
  \<^verbatim>\<open>utilityForGroupAction\<close>: the shared gate of \<^verbatim>\<open>addParticipant\<close>,
  \<^verbatim>\<open>removeParticipant\<close> and \<^verbatim>\<open>toggleAdmin\<close>. The \<^verbatim>\<open>includes\<close> and \<^verbatim>\<open>indexOf\<close> of a
  mongoose array compare the given string with the strings of the stored ids.
\<close>

definition utilityForGroupAction ::
  "env \<Rightarrow> db \<Rightarrow> string option \<Rightarrow> string option \<Rightarrow> oid \<Rightarrow> api_error + chat" where
  "utilityForGroupAction m d groupId participantId loggedInUserId =
     (if blank groupId \<or> blank participantId
      then Inl (ApiError BAD_REQUEST ''All fields are required'')
      else case (groupId, participantId) of
        (Some gid, Some pid) \<Rightarrow>
          if \<not> isValidObjectId m (Some gid) \<or> \<not> isValidObjectId m (Some pid)
          then Inl (ApiError BAD_REQUEST ''Invalid ids'')
          else (case Chat_findById m d gid of
              Inl e \<Rightarrow> Inl e
            | Inr None \<Rightarrow> Inl (ApiError NOT_FOUND ''Group chat not found'')
            | Inr (Some groupChat) \<Rightarrow>
                if chatType groupChat \<noteq> Group
                then Inl (ApiError NOT_FOUND ''Group chat not found'')
                else if loggedInUserId \<notin> set (admins groupChat)
                then Inl (ApiError UNAUTHORIZED ''Only admins can perform this action'')
                else Inr groupChat)
      | _ \<Rightarrow> Inl (ApiError BAD_REQUEST ''All fields are required''))"

text \<open>
  \<^verbatim>\<open>addParticipant\<close>: the friendship query casts the two strings of the sorted pair, and
  the \<^verbatim>\<open>push\<close> casts the new participant.
\<close>

definition addParticipant ::
  "env \<Rightarrow> db \<Rightarrow> oid \<Rightarrow> string option \<Rightarrow> string option \<Rightarrow> nat \<Rightarrow> outcome" where
  "addParticipant m d loggedInUserId groupId participantId now =
     (case utilityForGroupAction m d groupId participantId loggedInUserId of
        Inl e \<Rightarrow> (Inl e, d)
      | Inr groupChat \<Rightarrow>
          (case participantId of
             None \<Rightarrow> (Inl (ApiError BAD_REQUEST ''All fields are required''), d)
           | Some pid \<Rightarrow>
               if pid \<in> set (participants groupChat)
               then (Inl (ApiError BAD_REQUEST ''This user is already in the group''), d)
               else (case sortUserIds loggedInUserId pid of (smallerId, biggerId) \<Rightarrow>
                 (case Friendship_findOne m d smallerId biggerId of
                    Inl e \<Rightarrow> (Inl e, d)
                  | Inr None \<Rightarrow>
                      (Inl (ApiError BAD_REQUEST ''You can only add your friends to the group''), d)
                  | Inr (Some friendship) \<Rightarrow>
                      (case castObjectId m pid of
                         None \<Rightarrow> (Inl (CastError pid), d)
                       | Some k \<Rightarrow>
                           (Inr (ApiResponse OK ''User added to group'' NoData),
                            save d (groupChat\<lparr>participants := participants groupChat @ [k]\<rparr>)
                              now))))))"

text \<open>
  \<^verbatim>\<open>xs.indexOf(x)\<close> followed by \<^verbatim>\<open>xs.splice(idx, 1)\<close> when the index is not -1 removes
  the first occurrence: \<open>remove1\<close>, which leaves the list alone when \<open>x\<close> is absent.
\<close>

definition removeParticipant ::
  "env \<Rightarrow> db \<Rightarrow> oid \<Rightarrow> string option \<Rightarrow> string option \<Rightarrow> nat \<Rightarrow> outcome" where
  "removeParticipant m d loggedInUserId groupId participantId now =
     (case utilityForGroupAction m d groupId participantId loggedInUserId of
        Inl e \<Rightarrow> (Inl e, d)
      | Inr groupChat \<Rightarrow>
          (case participantId of
             None \<Rightarrow> (Inl (ApiError BAD_REQUEST ''All fields are required''), d)
           | Some pid \<Rightarrow>
               if loggedInUserId = pid
               then (Inl (ApiError BAD_REQUEST
                            ''You can't remove yourself, try leaving the group''), d)
               else if pid \<notin> set (participants groupChat)
               then (Inl (ApiError BAD_REQUEST ''This user is not in the group''), d)
               else (Inr (ApiResponse OK ''User removed from group'' NoData),
                     save d (groupChat\<lparr>participants := remove1 pid (participants groupChat),
                                        admins := remove1 pid (admins groupChat)\<rparr>) now)))"

text \<open>\<^verbatim>\<open>toggleAdmin\<close>: the \<^verbatim>\<open>push\<close> of a new admin casts the string.\<close>

definition toggleAdmin ::
  "env \<Rightarrow> db \<Rightarrow> oid \<Rightarrow> string option \<Rightarrow> string option \<Rightarrow> nat \<Rightarrow> outcome" where
  "toggleAdmin m d loggedInUserId groupId participantId now =
     (case utilityForGroupAction m d groupId participantId loggedInUserId of
        Inl e \<Rightarrow> (Inl e, d)
      | Inr groupChat \<Rightarrow>
          (case participantId of
             None \<Rightarrow> (Inl (ApiError BAD_REQUEST ''All fields are required''), d)
           | Some pid \<Rightarrow>
               if pid \<notin> set (participants groupChat)
               then (Inl (ApiError BAD_REQUEST ''This user is not in the group''), d)
               else if pid \<notin> set (admins groupChat)
               then (case castObjectId m pid of
                       None \<Rightarrow> (Inl (CastError pid), d)
                     | Some k \<Rightarrow>
                         (Inr (ApiResponse OK ''User marked as admin'' NoData),
                          save d (groupChat\<lparr>admins := admins groupChat @ [k]\<rparr>) now))
               else (Inr (ApiResponse OK ''Admin removed'' NoData),
                     save d (groupChat\<lparr>admins := remove1 pid (admins groupChat)\<rparr>) now)))"

text \<open>
  \<^verbatim>\<open>leaveGroup\<close> checks only that the group id is not blank before \<^verbatim>\<open>Chat.findById\<close>,
  so a string that is no object id raises there. When the participant list is empty
  after the splice the handler answers before any \<^verbatim>\<open>save\<close>. \<^verbatim>\<open>participants[0]\<close> is read
  only on a non-empty list.
\<close>

definition leaveGroup :: "env \<Rightarrow> db \<Rightarrow> oid \<Rightarrow> string option \<Rightarrow> nat \<Rightarrow> outcome" where
  "leaveGroup m d loggedInUserId groupId now =
     (if blank groupId then (Inl (ApiError BAD_REQUEST ''Please provide group id''), d)
      else case groupId of
        None \<Rightarrow> (Inl (ApiError BAD_REQUEST ''Please provide group id''), d)
      | Some gid \<Rightarrow>
          (case Chat_findById m d gid of
              Inl e \<Rightarrow> (Inl e, d)
            | Inr None \<Rightarrow> (Inl (ApiError NOT_FOUND ''Group chat not found''), d)
            | Inr (Some groupChat) \<Rightarrow>
                if chatType groupChat \<noteq> Group
                then (Inl (ApiError NOT_FOUND ''Group chat not found''), d)
                else if loggedInUserId \<notin> set (participants groupChat)
                then (Inl (ApiError BAD_REQUEST ''You are not in the group''), d)
                else (case remove1 loggedInUserId (participants groupChat) of
                    [] \<Rightarrow> (Inr (ApiResponse OK ''You left the group'' NoData), d)
                  | p0 # rest \<Rightarrow>
                      (let wasAdmin = (loggedInUserId \<in> set (admins groupChat));
                           admins1 = remove1 loggedInUserId (admins groupChat);
                           admins2 = (if wasAdmin \<and> admins1 = [] then admins1 @ [p0]
                                      else admins1)
                       in (Inr (ApiResponse OK ''You left the group'' NoData),
                           save d (groupChat\<lparr>participants := p0 # rest,
                                              admins := admins2\<rparr>) now)))))"

text \<open>
  \<^verbatim>\<open>updateGroupName\<close>: name check, id check, lookup, admin check, then the write.
  \<^verbatim>\<open>Chat.findById(undefined)\<close> finds nothing.
\<close>

definition updateGroupName ::
  "env \<Rightarrow> db \<Rightarrow> oid \<Rightarrow> string option \<Rightarrow> string option \<Rightarrow> nat \<Rightarrow> outcome" where
  "updateGroupName m d loggedInUserId groupName' groupId now =
     (if blank groupName' then (Inl (ApiError BAD_REQUEST ''Group name is required''), d)
      else case groupId of
        None \<Rightarrow>
          if \<not> isValidObjectId m None then (Inl (ApiError BAD_REQUEST ''Invalid group id''), d)
          else (Inl (ApiError NOT_FOUND ''Group chat not found''), d)
      | Some gid \<Rightarrow>
          if \<not> isValidObjectId m (Some gid)
          then (Inl (ApiError BAD_REQUEST ''Invalid group id''), d)
          else (case Chat_findById m d gid of
              Inl e \<Rightarrow> (Inl e, d)
            | Inr None \<Rightarrow> (Inl (ApiError NOT_FOUND ''Group chat not found''), d)
            | Inr (Some groupChat) \<Rightarrow>
                if chatType groupChat \<noteq> Group
                then (Inl (ApiError NOT_FOUND ''Group chat not found''), d)
                else if loggedInUserId \<notin> set (admins groupChat)
                then (Inl (ApiError UNAUTHORIZED ''Only admins can change group name''), d)
                else (Inr (ApiResponse OK ''Group name updated'' NoData),
                      save d (groupChat\<lparr>groupName := groupName'\<rparr>) now)))"

section \<open>Creating chats\<close>

text \<open>
  Modelled from the spec: the defaults that \<^verbatim>\<open>Chat.create\<close> fills in come from the chat
  schema (\<^verbatim>\<open>models/chat.model.js\<close>), which is not among the sources. The spec's data
  model has \<^verbatim>\<open>chatType\<close> in {one-to-one, group}, \<^verbatim>\<open>admins\<close> and the group fields
  meaningful for groups only, and no last message on a new chat; the one-to-one lookup
  of the controller needs the default type to be one-to-one. The fresh \<^verbatim>\<open>_id\<close> and the
  time of the write are given by the caller of the model.
\<close>

definition Chat_defaults :: "oid \<Rightarrow> nat \<Rightarrow> chat" where
  "Chat_defaults fresh now =
     \<lparr>chat_id = fresh, chatType = OneToOne, participants = [], admins = [],
      groupName = None, groupIcon = None, lastMessageId = None, updatedAt = now\<rparr>"

definition Chat_create :: "db \<Rightarrow> chat \<Rightarrow> db" where
  "Chat_create d c = d\<lparr>chats := chats d @ [c]\<rparr>"

text \<open>
  The \<^verbatim>\<open>$lookup\<close> stage of \<^verbatim>\<open>createOneToOneChat\<close> puts the projected messages whose id
  is the chat's \<^verbatim>\<open>lastMessageId\<close> in place of that field; the \<^verbatim>\<open>$unwind\<close> that follows
  names a field (\<^verbatim>\<open>lastMessage\<close>) the documents do not have and keeps them as they are.
  \<^verbatim>\<open>Chat.create\<close> gives the new document, so the test \<^verbatim>\<open>!newChat\<close> after it, here and
  in \<^verbatim>\<open>createGroupChat\<close>, never fires.
\<close>

definition lookup_messages :: "db \<Rightarrow> chat \<Rightarrow> message list" where
  "lookup_messages d c = filter (\<lambda>m. Some (msg_id m) = lastMessageId c) (messages d)"

definition createOneToOneChat ::
  "env \<Rightarrow> db \<Rightarrow> user \<Rightarrow> string option \<Rightarrow> oid \<Rightarrow> nat \<Rightarrow> outcome" where
  "createOneToOneChat m d req_user userId fresh now =
     (case userId of
        None \<Rightarrow> (Inl (ApiError BAD_REQUEST ''Invalid user id''), d)
      | Some uid \<Rightarrow>
          if uid = [] \<or> \<not> isValidObjectId m (Some uid)
          then (Inl (ApiError BAD_REQUEST ''Invalid user id''), d)
          else (case User_findById m d uid of
              Inl e \<Rightarrow> (Inl e, d)
            | Inr None \<Rightarrow> (Inl (ApiError NOT_FOUND ''User not found''), d)
            | Inr (Some usr) \<Rightarrow>
               (case sortUserIds (user_id req_user) (user_id usr) of (smallerId, biggerId) \<Rightarrow>
                 (case filter (\<lambda>c. chatType c = OneToOne \<and> participants c = [smallerId, biggerId])
                         (chats d) of
                    chatData # others \<Rightarrow>
                      (Inr (ApiResponse OK ''Chat already exists''
                              (ChatFound chatData (lookup_messages d chatData) [req_user, usr])), d)
                  | [] \<Rightarrow>
                     (case Friendship_findAccepted d smallerId biggerId of
                        None \<Rightarrow> (Inl (ApiError BAD_REQUEST ''You can only chat with friends''), d)
                      | Some friendship \<Rightarrow>
                         (let newChat = (Chat_defaults fresh now)
                                \<lparr>participants := [smallerId, biggerId]\<rparr>
                          in (Inr (ApiResponse CREATED ''Chat created''
                                     (ChatCreated newChat [req_user, usr])),
                              Chat_create d newChat)))))))"

text \<open>
  \<^verbatim>\<open>createGroupChat\<close>. \<open>None\<close> for \<^verbatim>\<open>participants\<close> is a field that is absent or no
  array. \<^verbatim>\<open>User.find({_id: {$in: ids}})\<close> and \<^verbatim>\<open>Friendship.find({$or: pairs, status})\<close>
  cast the strings they are given and return the stored documents that match, and the
  handler compares their number with the number of ids. The pairs are ordered by the
  strings as they came. \<^verbatim>\<open>Chat.create\<close> casts the participants and the admins.
\<close>

fun cast_pairs :: "env \<Rightarrow> (string \<times> string) list \<Rightarrow> api_error + (oid \<times> oid) list" where
  "cast_pairs m [] = Inr []"
| "cast_pairs m ((a, b) # ps) =
     (case castObjectId m a of
        None \<Rightarrow> Inl (CastError a)
      | Some x \<Rightarrow>
          (case castObjectId m b of
             None \<Rightarrow> Inl (CastError b)
           | Some y \<Rightarrow> (case cast_pairs m ps of Inl e \<Rightarrow> Inl e | Inr qs \<Rightarrow> Inr ((x, y) # qs))))"

definition createGroupChat ::
  "env \<Rightarrow> db \<Rightarrow> user \<Rightarrow> string list option \<Rightarrow> string option \<Rightarrow> oid \<Rightarrow> nat \<Rightarrow> outcome" where
  "createGroupChat m d req_user participants' groupName' fresh now =
     (let loggedInUserId = user_id req_user in
      if blank groupName' then (Inl (ApiError BAD_REQUEST ''Group name is required''), d)
      else case participants' of
        None \<Rightarrow>
          (Inl (ApiError BAD_REQUEST ''participants is required and should be more than 1''), d)
      | Some ps \<Rightarrow>
          if length ps < 2
          then (Inl (ApiError BAD_REQUEST
                       ''participants is required and should be more than 1''), d)
          else
           (let validParticipantsIds = filter (\<lambda>i. isValidObjectId m (Some i)) ps in
            if length ps \<noteq> length validParticipantsIds
            then (Inl (ApiError BAD_REQUEST ''Some participants are invalid''), d)
            else
             (case cast_all m validParticipantsIds of
                Inl e \<Rightarrow> (Inl e, d)
              | Inr ids \<Rightarrow>
                 (let found = filter (\<lambda>u. user_id u \<in> set ids) (users d) in
                  if length found \<noteq> length validParticipantsIds
                  then (Inl (ApiError BAD_REQUEST ''Some user do not exists''), d)
                  else
                   (let friendShipPairs =
                          map (\<lambda>pId. if pId < loggedInUserId then (pId, loggedInUserId)
                                      else (loggedInUserId, pId)) validParticipantsIds
                    in case cast_pairs m friendShipPairs of
                      Inl e \<Rightarrow> (Inl e, d)
                    | Inr pairs \<Rightarrow>
                       (let friendShips =
                              filter (\<lambda>f. (userOneId f, userTwoId f) \<in> set pairs
                                           \<and> status f = ''accepted'') (friendships d)
                        in if length friendShips \<noteq> length validParticipantsIds
                           then (Inl (ApiError BAD_REQUEST
                                        ''You can only add friends to the group''), d)
                           else
                            (case cast_all m (validParticipantsIds @ [loggedInUserId]) of
                               Inl e \<Rightarrow> (Inl e, d)
                             | Inr members \<Rightarrow>
                                (case cast_all m [loggedInUserId] of
                                   Inl e \<Rightarrow> (Inl e, d)
                                 | Inr firstAdmins \<Rightarrow>
                                    (let groupChat = (Chat_defaults fresh now)
                                           \<lparr>chatType := Group,
                                            participants := members,
                                            groupName := groupName',
                                            admins := firstAdmins\<rparr>
                                     in (Inr (ApiResponse CREATED ''Group chat created''
                                                (ChatCreated groupChat (found @ [req_user]))),
                                         Chat_create d groupChat))))))))))"

section \<open>Paginated queries\<close>

text \<open>
  MongoDB evaluates \<^verbatim>\<open>{$regex: search, $options: "i"}\<close> with PCRE: the search text is a
  pattern, not a literal. One part of PCRE is modelled, the one whose meaning is beyond
  doubt: patterns of printable ASCII in which \<^verbatim>\<open>.\<close> is the only metacharacter, on
  printable ASCII values. There the server takes every pattern, a pattern matches when
  it matches at some position, a dot stands for any one character, and every other
  character stands for itself up to the case of letters. Outside that part the answers
  are those of the environment.
\<close>

definition printable :: "char \<Rightarrow> bool" where
  "printable c = (CHR 0x20 \<le> c \<and> c \<le> CHR 0x7E)"

definition pcre_meta :: "char \<Rightarrow> bool" where
  "pcre_meta c = (c \<in> set [CHR 0x5C, CHR ''^'', CHR ''$'', CHR ''.'', CHR ''['', CHR '']'',
                           CHR ''|'', CHR ''('', CHR '')'', CHR ''?'', CHR ''*'', CHR ''+'',
                           CHR ''{'', CHR ''}''])"

definition to_lower :: "char \<Rightarrow> char" where
  "to_lower c =
     (case map_of (zip ''ABCDEFGHIJKLMNOPQRSTUVWXYZ'' ''abcdefghijklmnopqrstuvwxyz'') c of
        Some l \<Rightarrow> l
      | None \<Rightarrow> c)"

fun match_here :: "string \<Rightarrow> string \<Rightarrow> bool" where
  "match_here [] s = True"
| "match_here (p # ps) [] = False"
| "match_here (p # ps) (c # cs) =
     ((p = CHR ''.'' \<or> to_lower p = to_lower c) \<and> match_here ps cs)"

fun regex_search :: "string \<Rightarrow> string \<Rightarrow> bool" where
  "regex_search p [] = match_here p []"
| "regex_search p (c # cs) = (match_here p (c # cs) \<or> regex_search p cs)"

definition pattern_ok :: "string \<Rightarrow> bool" where
  "pattern_ok p = list_all (\<lambda>c. printable c \<and> (c = CHR ''.'' \<or> \<not> pcre_meta c)) p"

definition subject_ok :: "string \<Rightarrow> bool" where
  "subject_ok s = list_all printable s"

definition regex_accepts :: "env \<Rightarrow> string \<Rightarrow> bool" where
  "regex_accepts m p = (pattern_ok p \<or> regexValid m p)"

definition mongo_regex_i :: "env \<Rightarrow> string \<Rightarrow> string \<Rightarrow> bool" where
  "mongo_regex_i m p s =
     (if pattern_ok p \<and> subject_ok s then regex_search p s else regexMatch m p s)"

text \<open>
  \<^verbatim>\<open>page = isNaN(page) ? 1 : Number(page); if (page < 1) page = 1\<close>. The argument of the
  model is what \<^verbatim>\<open>Number(page)\<close> gives: \<open>None\<close> for \<^verbatim>\<open>NaN\<close> (\<^verbatim>\<open>isNaN\<close> converts the same
  way), \<open>Some n\<close> for the integer \<open>n\<close>.
\<close>

definition page_of :: "int option \<Rightarrow> int" where
  "page_of page = (let p = (case page of None \<Rightarrow> 1 | Some n \<Rightarrow> n) in if p < 1 then 1 else p)"

definition limit :: int where
  "limit = 50"

text \<open>The \<^verbatim>\<open>$skip\<close> and \<^verbatim>\<open>$limit\<close> stages of a \<^verbatim>\<open>$facet\<close>.\<close>

definition page_slice :: "int \<Rightarrow> 'a list \<Rightarrow> 'a list" where
  "page_slice page xs = take (nat limit) (drop (nat ((page - 1) * limit)) xs)"

text \<open>
  \<^verbatim>\<open>searchGroupChat\<close>. A chat without a \<^verbatim>\<open>groupName\<close> does not match a \<^verbatim>\<open>$regex\<close>.
  A pattern that the server does not take makes the aggregate raise.
\<close>

definition searchGroupChat :: "env \<Rightarrow> db \<Rightarrow> oid \<Rightarrow> string option \<Rightarrow> int option \<Rightarrow> outcome" where
  "searchGroupChat m d loggedInUserId search page =
     (if blank search then (Inl (ApiError BAD_REQUEST ''Please provide a search query''), d)
      else case search of
        None \<Rightarrow> (Inl (ApiError BAD_REQUEST ''Please provide a search query''), d)
      | Some q \<Rightarrow>
         (let page1 = page_of page in
          if \<not> regex_accepts m q then (Inl (MongoServerError q), d)
          else
           (let groupChats =
                  filter (\<lambda>c. chatType c = Group \<and> loggedInUserId \<in> set (participants c)
                              \<and> (case groupName c of None \<Rightarrow> False
                                  | Some n \<Rightarrow> mongo_regex_i m q n)) (chats d);
                groupChatsData =
                  map (\<lambda>c. (chat_id c, chatType c, groupName c, groupIcon c))
                    (page_slice page1 groupChats);
                totalGroupChats = length groupChats;
                hasMore = (page1 * limit < int totalGroupChats)
            in (Inr (ApiResponse OK ''Search in groups success''
                       (GroupSearch groupChatsData totalGroupChats hasMore)), d))))"

text \<open>
  \<^verbatim>\<open>getAllChats\<close>. The \<^verbatim>\<open>$sort\<close> is by \<^verbatim>\<open>updatedAt\<close>, newest first; chats with equal
  stamps are kept in stored order here. After the page is cut, \<^verbatim>\<open>$lookup\<close> and
  \<^verbatim>\<open>$unwind\<close> with \<^verbatim>\<open>preserveNullAndEmptyArrays\<close> give one document per joined message, or
  the chat alone when there is none.
\<close>

definition unwind_lastMessage :: "db \<Rightarrow> chat \<Rightarrow> (chat \<times> message option) list" where
  "unwind_lastMessage d c =
     (case lookup_messages d c of [] \<Rightarrow> [(c, None)] | m # ms \<Rightarrow> map (\<lambda>x. (c, Some x)) (m # ms))"

definition getAllChats :: "db \<Rightarrow> oid \<Rightarrow> int option \<Rightarrow> outcome" where
  "getAllChats d loggedInUserId page =
     (let page1 = page_of page;
          sorted_chats = sort_key (\<lambda>c. - int (updatedAt c))
                           (filter (\<lambda>c. loggedInUserId \<in> set (participants c)) (chats d));
          chatsData = concat (map (unwind_lastMessage d) (page_slice page1 sorted_chats));
          totalChats = length sorted_chats;
          hasMore = (page1 * limit < int totalChats);
          allUniqueParticipantsIds = set (concat (map (\<lambda>x. participants (fst x)) chatsData));
          participants' = filter (\<lambda>u. user_id u \<in> allUniqueParticipantsIds) (users d)
      in (Inr (ApiResponse OK ''Get all chats success''
                 (ChatList chatsData totalChats hasMore participants')), d))"

section \<open>Vocabulary of the specification\<close>

text \<open>
  The error taxonomy of the specification (its section 7), read on the status classes
  its section 6 lists for the operations: a malformed or missing input is a bad request,
  an authorisation failure is the one authorisation status, and the two success
  statuses are no error.
\<close>

datatype error_class = ValidationError | NotFound | Forbidden | Conflict | InternalError

fun status_class :: "status \<Rightarrow> error_class option" where
  "status_class BAD_REQUEST = Some ValidationError"
| "status_class NOT_FOUND = Some NotFound"
| "status_class UNAUTHORIZED = Some Forbidden"
| "status_class INTERNAL_SERVER_ERROR = Some InternalError"
| "status_class OK = None"
| "status_class CREATED = None"

text \<open>Containment of the query in a name as a substring, letters compared without case.\<close>

definition contains_ci :: "string \<Rightarrow> string \<Rightarrow> bool" where
  "contains_ci q s = sublist (map to_lower q) (map to_lower s)"

text \<open>The group chats of a user whose name contains the query in that sense.\<close>

definition groups_containing :: "db \<Rightarrow> oid \<Rightarrow> string \<Rightarrow> chat list" where
  "groups_containing d u q =
     filter (\<lambda>c. chatType c = Group \<and> u \<in> set (participants c)
                 \<and> (case groupName c of None \<Rightarrow> False | Some n \<Rightarrow> contains_ci q n)) (chats d)"

section \<open>A small store\<close>

text \<open>
  An environment for the examples: object ids in their usual form, 24 hexadecimal
  digits in either case, which every mongoose release takes for valid and casts to the
  id of the same digits in lower case. Outside the modelled part of
  \<^verbatim>\<open>$regex\<close> it takes no pattern; the one such pattern of the examples is an unbalanced
  parenthesis, which the server refuses.
\<close>

definition hex_digit :: "char \<Rightarrow> bool" where
  "hex_digit c = (c \<in> set ''0123456789abcdefABCDEF'')"

definition hex24 :: "string option \<Rightarrow> bool" where
  "hex24 x = (case x of None \<Rightarrow> False | Some s \<Rightarrow> length s = 24 \<and> list_all hex_digit s)"

definition hex_cast :: "string \<Rightarrow> oid option" where
  "hex_cast s = (if hex24 (Some s) then Some (map to_lower s) else None)"

definition hex_env :: env where
  "hex_env = \<lparr>isValidObjectId = hex24, castObjectId = hex_cast,
              regexValid = (\<lambda>p. False), regexMatch = (\<lambda>p s. False)\<rparr>"

definition alice :: oid where "alice = ''aaaaaaaaaaaaaaaaaaaaaaaa''"
definition bob :: oid where "bob = ''bbbbbbbbbbbbbbbbbbbbbbbb''"
definition carol :: oid where "carol = ''cccccccccccccccccccccccc''"
definition dave :: oid where "dave = ''dddddddddddddddddddddddd''"
definition team_id :: oid where "team_id = ''0123456789abcdef01234567''"
definition talk_id :: oid where "talk_id = ''0123456789abcdef01234568''"
definition solo_id :: oid where "solo_id = ''0123456789abcdef01234569''"
definition none_id :: oid where "none_id = ''0123456789abcdef0123456f''"
definition new_id :: oid where "new_id = ''0123456789abcdef0123456a''"
definition hello_id :: oid where "hello_id = ''0123456789abcdef0123456b''"

definition user_of :: "oid \<Rightarrow> string \<Rightarrow> user" where
  "user_of i n = \<lparr>user_id = i, name = n, profilePic = [], bio = []\<rparr>"

definition friends_of :: "oid \<Rightarrow> oid \<Rightarrow> friendship" where
  "friends_of a b = \<lparr>userOneId = a, userTwoId = b, status = ''accepted''\<rparr>"

text \<open>
  A group of three with one admin, a one-to-one chat of Alice and Bob that has a last
  message, and a group with Dave alone.
\<close>

definition team :: chat where
  "team = \<lparr>chat_id = team_id, chatType = Group, participants = [alice, bob, carol],
           admins = [alice], groupName = Some ''Team'', groupIcon = None,
           lastMessageId = None, updatedAt = 5\<rparr>"

definition talk :: chat where
  "talk = \<lparr>chat_id = talk_id, chatType = OneToOne, participants = [alice, bob],
           admins = [], groupName = None, groupIcon = None,
           lastMessageId = Some hello_id, updatedAt = 9\<rparr>"

definition solo :: chat where
  "solo = \<lparr>chat_id = solo_id, chatType = Group, participants = [dave],
           admins = [dave], groupName = Some ''Solo'', groupIcon = None,
           lastMessageId = None, updatedAt = 2\<rparr>"

definition store :: db where
  "store = \<lparr>users = [user_of alice ''Alice'', user_of bob ''Bob'', user_of carol ''Carol'',
                      user_of dave ''Dave''],
            friendships = [friends_of alice bob, friends_of alice carol],
            chats = [team, talk, solo],
            messages = [\<lparr>msg_id = hello_id, messageType = ''text'', content = ''hello''\<rparr>]\<rparr>"

text \<open>The group that Alice creates with Bob and Carol at time 7 under the id \<open>new_id\<close>.\<close>

definition crew :: chat where
  "crew = \<lparr>chat_id = new_id, chatType = Group, participants = [bob, carol, alice],
           admins = [alice], groupName = Some ''Crew'', groupIcon = None,
           lastMessageId = None, updatedAt = 7\<rparr>"

text \<open>A store with 51 groups of Alice, Bob and Carol, all named "Team".\<close>

definition chat_no :: "nat \<Rightarrow> oid" where
  "chat_no k = replicate 22 (CHR ''0'')
                 @ [''0123456789abcdef'' ! (k div 16), ''0123456789abcdef'' ! (k mod 16)]"

definition many :: db where
  "many = \<lparr>users = users store, friendships = friendships store,
           chats = map (\<lambda>k. team\<lparr>chat_id := chat_no k, updatedAt := k\<rparr>) [0..<51],
           messages = []\<rparr>"

text \<open>The ids of the team and of Bob as a request may spell them, in upper case.\<close>

definition team_id_upper :: string where
  "team_id_upper = ''0123456789ABCDEF01234567''"

definition bob_upper :: string where
  "bob_upper = ''BBBBBBBBBBBBBBBBBBBBBBBB''"

text \<open>
  A store in which the accepted friendship of Alice and Bob is stored twice and Alice
  and Carol are no friends.
\<close>

definition twice :: db where
  "twice = \<lparr>users = users store, friendships = [friends_of alice bob, friends_of alice bob],
            chats = chats store, messages = messages store\<rparr>"

section \<open>Facts about the store and the collection helpers\<close>

lemmas ids = alice_def bob_def carol_def dave_def team_id_def talk_id_def solo_id_def
  none_id_def new_id_def hello_id_def

lemmas store_defs = store_def team_def talk_def solo_def user_of_def friends_of_def

lemma hex_env_simps:
  "isValidObjectId hex_env = hex24" "castObjectId hex_env = hex_cast"
  by (simp_all add: hex_env_def)

lemma hex24_ids:
  "hex24 (Some alice)" "hex24 (Some bob)" "hex24 (Some carol)" "hex24 (Some dave)"
  "hex24 (Some team_id)" "hex24 (Some talk_id)" "hex24 (Some solo_id)" "hex24 (Some none_id)"
  "hex24 (Some team_id_upper)" "\<not> hex24 (Some ''xyz'')"
  by (simp_all add: hex24_def hex_digit_def ids team_id_upper_def)

lemma hex_cast_ids:
  "hex_cast alice = Some alice" "hex_cast bob = Some bob" "hex_cast carol = Some carol"
  "hex_cast dave = Some dave" "hex_cast team_id = Some team_id" "hex_cast talk_id = Some talk_id"
  "hex_cast solo_id = Some solo_id" "hex_cast none_id = Some none_id"
  "hex_cast team_id_upper = Some team_id" "hex_cast ''xyz'' = None"
  by (simp_all add: hex_cast_def hex24_ids) (simp_all add: ids team_id_upper_def to_lower_def)

lemma not_blank_ids:
  "\<not> blank (Some alice)" "\<not> blank (Some bob)" "\<not> blank (Some carol)" "\<not> blank (Some dave)"
  "\<not> blank (Some team_id)" "\<not> blank (Some talk_id)" "\<not> blank (Some solo_id)"
  "\<not> blank (Some none_id)" "\<not> blank (Some team_id_upper)"
  by (simp_all add: blank_def js_trim_def js_space_def ids team_id_upper_def)

lemma store_chats:
  "Chat_findById hex_env store team_id = Inr (Some team)"
  "Chat_findById hex_env store talk_id = Inr (Some talk)"
  "Chat_findById hex_env store solo_id = Inr (Some solo)"
  "Chat_findById hex_env store none_id = Inr None"
  "Chat_findById hex_env store team_id_upper = Inr (Some team)"
  "Chat_findById hex_env store ''xyz'' = Inl (CastError ''xyz'')"
  by (simp_all add: Chat_findById_def hex_env_simps hex_cast_ids) (simp_all add: store_defs ids)

lemma chat_id_of_find:
  "Chat_findById m d i = Inr (Some g) \<Longrightarrow>
   castObjectId m i = Some (chat_id g) \<and> g \<in> set (chats d)"
  by (auto simp: Chat_findById_def find_Some_iff split: option.splits)

lemma find_replace_chat:
  "find (\<lambda>c. chat_id c = i) cs = Some g \<Longrightarrow> chat_id g' = i \<Longrightarrow>
   find (\<lambda>c. chat_id c = i) (replace_chat g' cs) = Some g'"
  by (induction cs) (auto split: if_splits)

lemma Chat_findById_save:
  "Chat_findById m d i = Inr (Some g) \<Longrightarrow> chat_id g' = chat_id g \<Longrightarrow>
   Chat_findById m (save d g' now) i = Inr (Some (g'\<lparr>updatedAt := now\<rparr>))"
proof -
  assume a: "Chat_findById m d i = Inr (Some g)" and b: "chat_id g' = chat_id g"
  from a obtain k where k: "castObjectId m i = Some k" "find (\<lambda>c. chat_id c = k) (chats d) = Some g"
    by (auto simp: Chat_findById_def split: option.splits)
  from k(2) have "chat_id g = k" by (auto simp: find_Some_iff)
  with b have "chat_id (g'\<lparr>updatedAt := now\<rparr>) = k" by simp
  with k(2) have "find (\<lambda>c. chat_id c = k) (replace_chat (g'\<lparr>updatedAt := now\<rparr>) (chats d)) =
      Some (g'\<lparr>updatedAt := now\<rparr>)"
    by (rule find_replace_chat)
  with k(1) show ?thesis by (simp add: Chat_findById_def save_def)
qed

lemma gate_admin:
  assumes "Chat_findById m d gid = Inr (Some g)" "chatType g = Group" "actor \<in> set (admins g)"
    "isValidObjectId m (Some gid)" "\<not> blank (Some gid)"
    "isValidObjectId m (Some pid)" "\<not> blank (Some pid)"
  shows "utilityForGroupAction m d (Some gid) (Some pid) actor = Inr g"
  using assms by (simp add: utilityForGroupAction_def)

section \<open>Leaving a group\<close>

text \<open>
  Claim C10. When the only participant of a group chat leaves, \<^verbatim>\<open>leaveGroup\<close> answers
  OK with "You left the group" and returns before any save: the store is the one it
  was given, the chat is still found under its id, unchanged, and the actor is still in
  its participant list. The group id of the request is any string that is not blank and
  under which \<^verbatim>\<open>findById\<close> finds the chat.
\<close>

theorem leaveGroup_last_participant_not_saved:
  assumes "Chat_findById m d gid = Inr (Some g)" and "chatType g = Group"
    and "\<not> blank (Some gid)"
    and "actor \<in> set (participants g)" and "remove1 actor (participants g) = []"
  shows "leaveGroup m d actor (Some gid) now =
           (Inr (ApiResponse OK ''You left the group'' NoData), d)
         \<and> Chat_findById m (snd (leaveGroup m d actor (Some gid) now)) gid = Inr (Some g)
         \<and> actor \<in> set (participants g)"
  using assms by (simp add: leaveGroup_def)

text \<open>Dave leaves the group in which he is alone.\<close>

theorem leaveGroup_last_participant_not_saved_witness:
  "Chat_findById hex_env store solo_id = Inr (Some solo) \<and> participants solo = [dave]
   \<and> leaveGroup hex_env store dave (Some solo_id) 7 =
       (Inr (ApiResponse OK ''You left the group'' NoData), store)
   \<and> Chat_findById hex_env (snd (leaveGroup hex_env store dave (Some solo_id) 7)) solo_id =
       Inr (Some solo)"
proof -
  have p: "participants solo = [dave]" "chatType solo = Group"
    by (simp_all add: solo_def)
  show ?thesis
    using leaveGroup_last_participant_not_saved [of hex_env store solo_id solo dave 7]
    by (simp add: store_chats not_blank_ids p)
qed

text \<open>
  Claim C3. When a participant of a group chat leaves and others remain, and the actor
  was an admin whose removal empties the admin list, the saved chat has the remaining
  participants and exactly one admin: the participant at index 0 of the remaining list.
  So the saved admin list is not empty.
\<close>

theorem leaveGroup_promotes_first_remaining:
  assumes "Chat_findById m d gid = Inr (Some g)" and "chatType g = Group"
    and "\<not> blank (Some gid)"
    and "actor \<in> set (participants g)" and "remove1 actor (participants g) \<noteq> []"
    and "actor \<in> set (admins g)" and "remove1 actor (admins g) = []"
  shows "fst (leaveGroup m d actor (Some gid) now) =
           Inr (ApiResponse OK ''You left the group'' NoData)
         \<and> Chat_findById m (snd (leaveGroup m d actor (Some gid) now)) gid =
             Inr (Some (g\<lparr>participants := remove1 actor (participants g),
                     admins := [remove1 actor (participants g) ! 0],
                     updatedAt := now\<rparr>))"
proof -
  obtain p0 rest where r: "remove1 actor (participants g) = p0 # rest"
    using assms(5) by (cases "remove1 actor (participants g)") auto
  have run: "leaveGroup m d actor (Some gid) now =
      (Inr (ApiResponse OK ''You left the group'' NoData),
       save d (g\<lparr>participants := p0 # rest, admins := [p0]\<rparr>) now)"
    using assms r by (simp add: leaveGroup_def)
  have "Chat_findById m (save d (g\<lparr>participants := p0 # rest, admins := [p0]\<rparr>) now) gid =
      Inr (Some (g\<lparr>participants := p0 # rest, admins := [p0], updatedAt := now\<rparr>))"
    using Chat_findById_save [OF assms(1), of "g\<lparr>participants := p0 # rest, admins := [p0]\<rparr>" now]
    by simp
  with run r show ?thesis by simp
qed

text \<open>The scenario of the specification: Alice, the only admin of the team, leaves.\<close>

theorem leaveGroup_promotes_first_remaining_witness:
  "Chat_findById hex_env store team_id = Inr (Some team)
   \<and> participants team = [alice, bob, carol] \<and> admins team = [alice]
   \<and> fst (leaveGroup hex_env store alice (Some team_id) 7) =
       Inr (ApiResponse OK ''You left the group'' NoData)
   \<and> Chat_findById hex_env (snd (leaveGroup hex_env store alice (Some team_id) 7)) team_id =
       Inr (Some (team\<lparr>participants := [bob, carol], admins := [bob], updatedAt := 7\<rparr>))"
proof -
  have p: "participants team = [alice, bob, carol]" "admins team = [alice]" "chatType team = Group"
    by (simp_all add: team_def)
  show ?thesis
    using leaveGroup_promotes_first_remaining [of hex_env store team_id team alice 7]
    by (simp add: store_chats not_blank_ids p)
qed

section \<open>Removing a participant\<close>

text \<open>
  Claim C4. For a \<^verbatim>\<open>removeParticipant\<close> call by an admin of a group chat: a target that
  is no current participant makes the call fail and the store stays as it was; so does
  the actor naming themself, with the advice to leave the group; any other participant
  (whose id, being stored, is a valid object id) is taken out of the participant list
  and out of the admin list (one \<^verbatim>\<open>splice\<close> each, which on a duplicate-free participant
  list leaves no occurrence), and the saved admin list is the old one without the
  target: nobody is promoted.
\<close>

theorem removeParticipant_cases:
  assumes "Chat_findById m d gid = Inr (Some g)" and "chatType g = Group"
    and "isValidObjectId m (Some gid)" and "\<not> blank (Some gid)"
    and "actor \<in> set (admins g)"
  shows "(tgt \<notin> Some ` set (participants g) \<longrightarrow>
            (\<exists>e. removeParticipant m d actor (Some gid) tgt now = (Inl e, d)))
         \<and> (\<exists>e. removeParticipant m d actor (Some gid) (Some actor) now = (Inl e, d))
         \<and> (isValidObjectId m (Some actor) \<and> \<not> blank (Some actor) \<longrightarrow>
              removeParticipant m d actor (Some gid) (Some actor) now =
                (Inl (ApiError BAD_REQUEST ''You can't remove yourself, try leaving the group''), d))
         \<and> (pid \<in> set (participants g) \<and> pid \<noteq> actor \<and> isValidObjectId m (Some pid)
              \<and> \<not> blank (Some pid) \<longrightarrow>
              fst (removeParticipant m d actor (Some gid) (Some pid) now) =
                Inr (ApiResponse OK ''User removed from group'' NoData)
              \<and> Chat_findById m (snd (removeParticipant m d actor (Some gid) (Some pid) now)) gid =
                  Inr (Some (g\<lparr>participants := remove1 pid (participants g),
                          admins := remove1 pid (admins g), updatedAt := now\<rparr>))
              \<and> (distinct (participants g) \<longrightarrow> pid \<notin> set (remove1 pid (participants g))))"
proof (intro conjI impI)
  assume "tgt \<notin> Some ` set (participants g)"
  then show "\<exists>e. removeParticipant m d actor (Some gid) tgt now = (Inl e, d)"
    using assms
    by (cases tgt) (auto simp: removeParticipant_def utilityForGroupAction_def split: sum.splits)
next
  show "\<exists>e. removeParticipant m d actor (Some gid) (Some actor) now = (Inl e, d)"
    using assms
    by (auto simp: removeParticipant_def utilityForGroupAction_def split: sum.splits)
next
  assume "isValidObjectId m (Some actor) \<and> \<not> blank (Some actor)"
  then have "utilityForGroupAction m d (Some gid) (Some actor) actor = Inr g"
    using assms by (simp add: gate_admin)
  then show "removeParticipant m d actor (Some gid) (Some actor) now =
      (Inl (ApiError BAD_REQUEST ''You can't remove yourself, try leaving the group''), d)"
    by (simp add: removeParticipant_def)
next
  assume h: "pid \<in> set (participants g) \<and> pid \<noteq> actor \<and> isValidObjectId m (Some pid)
      \<and> \<not> blank (Some pid)"
  have gate: "utilityForGroupAction m d (Some gid) (Some pid) actor = Inr g"
    using assms h by (simp add: gate_admin)
  have run: "removeParticipant m d actor (Some gid) (Some pid) now =
      (Inr (ApiResponse OK ''User removed from group'' NoData),
       save d (g\<lparr>participants := remove1 pid (participants g),
                  admins := remove1 pid (admins g)\<rparr>) now)"
    using h gate by (auto simp: removeParticipant_def)
  show "fst (removeParticipant m d actor (Some gid) (Some pid) now) =
                Inr (ApiResponse OK ''User removed from group'' NoData)"
    using run by simp
  show "Chat_findById m (snd (removeParticipant m d actor (Some gid) (Some pid) now)) gid =
                  Inr (Some (g\<lparr>participants := remove1 pid (participants g),
                          admins := remove1 pid (admins g), updatedAt := now\<rparr>))"
    using run Chat_findById_save [OF assms(1), of "g\<lparr>participants := remove1 pid (participants g),
                  admins := remove1 pid (admins g)\<rparr>" now] by simp
  assume "distinct (participants g)"
  then show "pid \<notin> set (remove1 pid (participants g))" by simp
qed

text \<open>Alice, admin of the team, names Dave (no member), herself, and Bob.\<close>

theorem removeParticipant_cases_witness:
  "Chat_findById hex_env store team_id = Inr (Some team) \<and> alice \<in> set (admins team)
   \<and> Some dave \<notin> Some ` set (participants team)
   \<and> removeParticipant hex_env store alice (Some team_id) (Some dave) 7 =
       (Inl (ApiError BAD_REQUEST ''This user is not in the group''), store)
   \<and> removeParticipant hex_env store alice (Some team_id) (Some alice) 7 =
       (Inl (ApiError BAD_REQUEST ''You can't remove yourself, try leaving the group''), store)
   \<and> fst (removeParticipant hex_env store alice (Some team_id) (Some bob) 7) =
       Inr (ApiResponse OK ''User removed from group'' NoData)
   \<and> Chat_findById hex_env
        (snd (removeParticipant hex_env store alice (Some team_id) (Some bob) 7)) team_id =
       Inr (Some (team\<lparr>participants := [alice, carol], admins := [alice], updatedAt := 7\<rparr>))"
proof -
  have p: "participants team = [alice, bob, carol]" "admins team = [alice]" "chatType team = Group"
    by (simp_all add: team_def)
  have n: "alice \<noteq> bob" "alice \<noteq> dave" "bob \<noteq> dave" "carol \<noteq> dave" "bob \<noteq> carol" "alice \<noteq> carol"
    by (simp_all add: ids)
  have gate: "utilityForGroupAction hex_env store (Some team_id) (Some x) alice = Inr team"
    if "hex24 (Some x)" "\<not> blank (Some x)" for x
    using that by (simp add: gate_admin store_chats hex_env_simps hex24_ids not_blank_ids p)
  have a: "removeParticipant hex_env store alice (Some team_id) (Some dave) 7 =
       (Inl (ApiError BAD_REQUEST ''This user is not in the group''), store)"
    using n by (simp add: removeParticipant_def gate hex24_ids not_blank_ids p)
  show ?thesis
    using removeParticipant_cases [of hex_env store team_id team alice "Some dave" 7 bob] n
    by (simp add: store_chats hex_env_simps hex24_ids not_blank_ids p a)
qed

section \<open>The admin list under the other membership handlers\<close>

text \<open>
  \<^verbatim>\<open>addParticipant\<close> does not touch the admin list; \<^verbatim>\<open>removeParticipant\<close> cannot take
  the acting admin out, since the actor may not name themself; \<^verbatim>\<open>leaveGroup\<close> promotes
  a remaining participant when the last admin leaves. A group that has an admin still
  has one after each of them, as long as a participant remains.
\<close>

lemma gate_Inr:
  assumes "utilityForGroupAction m d gi pi a = Inr g"
  shows "\<exists>gid pid. gi = Some gid \<and> pi = Some pid \<and> Chat_findById m d gid = Inr (Some g)
           \<and> chatType g = Group \<and> a \<in> set (admins g)"
  using assms
  by (auto simp: utilityForGroupAction_def split: if_splits option.splits prod.splits sum.splits)

lemma addParticipant_keeps_admins:
  assumes "addParticipant m d a (Some gid) pi now = (Inr r, d')"
  shows "\<exists>g g'. Chat_findById m d gid = Inr (Some g) \<and> Chat_findById m d' gid = Inr (Some g')
           \<and> admins g' = admins g \<and> admins g' \<noteq> []"
proof -
  from assms obtain g where gate: "utilityForGroupAction m d (Some gid) pi a = Inr g"
    by (auto simp: addParticipant_def split: sum.splits)
  from gate_Inr [OF gate] obtain pid where p: "pi = Some pid"
      "Chat_findById m d gid = Inr (Some g)" "a \<in> set (admins g)" by auto
  from assms gate p obtain k where "d' = save d (g\<lparr>participants := participants g @ [k]\<rparr>) now"
    by (auto simp: addParticipant_def split: if_splits option.splits prod.splits sum.splits)
  then have "Chat_findById m d' gid =
      Inr (Some (g\<lparr>participants := participants g @ [k], updatedAt := now\<rparr>))"
    using Chat_findById_save [OF p(2), of "g\<lparr>participants := participants g @ [k]\<rparr>" now]
    by simp
  with p show ?thesis by auto
qed

lemma removeParticipant_keeps_an_admin:
  assumes "removeParticipant m d a (Some gid) pi now = (Inr r, d')"
  shows "\<exists>g'. Chat_findById m d' gid = Inr (Some g') \<and> a \<in> set (admins g')"
proof -
  from assms obtain g where gate: "utilityForGroupAction m d (Some gid) pi a = Inr g"
    by (auto simp: removeParticipant_def split: sum.splits)
  from gate_Inr [OF gate] obtain pid where p: "pi = Some pid"
      "Chat_findById m d gid = Inr (Some g)" "a \<in> set (admins g)" by auto
  from assms gate p have ne: "a \<noteq> pid"
    and "d' = save d (g\<lparr>participants := remove1 pid (participants g),
                         admins := remove1 pid (admins g)\<rparr>) now"
    by (auto simp: removeParticipant_def split: if_splits)
  then have "Chat_findById m d' gid = Inr (Some (g\<lparr>participants := remove1 pid (participants g),
                         admins := remove1 pid (admins g), updatedAt := now\<rparr>))"
    using Chat_findById_save [OF p(2), of "g\<lparr>participants := remove1 pid (participants g),
                         admins := remove1 pid (admins g)\<rparr>" now]
    by simp
  with p ne show ?thesis by auto
qed

lemma leaveGroup_keeps_an_admin:
  assumes "leaveGroup m d a (Some gid) now = (Inr r, d')"
    and "Chat_findById m d gid = Inr (Some g)" and "admins g \<noteq> []"
    and "remove1 a (participants g) \<noteq> []"
  shows "\<exists>g'. Chat_findById m d' gid = Inr (Some g')
           \<and> participants g' = remove1 a (participants g) \<and> admins g' \<noteq> []"
proof -
  obtain p0 rest where r: "remove1 a (participants g) = p0 # rest"
    using assms(4) by (cases "remove1 a (participants g)") auto
  let ?ad = "if a \<in> set (admins g) \<and> remove1 a (admins g) = [] then remove1 a (admins g) @ [p0]
             else remove1 a (admins g)"
  from assms(1,2) r have "d' = save d (g\<lparr>participants := p0 # rest, admins := ?ad\<rparr>) now"
    by (auto simp: leaveGroup_def Let_def split: if_splits)
  then have f: "Chat_findById m d' gid = Inr (Some (g\<lparr>participants := p0 # rest, admins := ?ad,
      updatedAt := now\<rparr>))"
    using Chat_findById_save [OF assms(2), of "g\<lparr>participants := p0 # rest, admins := ?ad\<rparr>" now]
    by simp
  have "?ad \<noteq> []"
    using assms(3) by (auto simp: remove1_idem)
  with f r show ?thesis by simp
qed

section \<open>Toggling an admin\<close>

text \<open>
  Claim C1. The admin list of a group with participants can become empty: \<^verbatim>\<open>toggleAdmin\<close>
  takes the target out of the admin list whenever it is there, also when the target is
  the last admin. Alice is the only admin of the team and toggles herself; the call
  succeeds and the saved chat has three participants and no admin.
\<close>

theorem toggleAdmin_last_admin_leaves_none:
  "fst (toggleAdmin hex_env store alice (Some team_id) (Some alice) 7) =
     Inr (ApiResponse OK ''Admin removed'' NoData)
   \<and> Chat_findById hex_env
        (snd (toggleAdmin hex_env store alice (Some team_id) (Some alice) 7)) team_id =
       Inr (Some (team\<lparr>admins := [], updatedAt := 7\<rparr>))
   \<and> participants (team\<lparr>admins := [], updatedAt := 7\<rparr>) = [alice, bob, carol]
   \<and> admins (team\<lparr>admins := [], updatedAt := 7\<rparr>) = []"
proof -
  have p: "participants team = [alice, bob, carol]" "admins team = [alice]" "chatType team = Group"
     "chat_id team = team_id"
    by (simp_all add: team_def)
  have gate: "utilityForGroupAction hex_env store (Some team_id) (Some alice) alice = Inr team"
    by (rule gate_admin) (simp_all add: store_chats hex_env_simps hex24_ids not_blank_ids p)
  have run: "toggleAdmin hex_env store alice (Some team_id) (Some alice) 7 =
     (Inr (ApiResponse OK ''Admin removed'' NoData), save store (team\<lparr>admins := []\<rparr>) 7)"
    by (simp add: toggleAdmin_def gate p)
  show ?thesis
    using Chat_findById_save [OF store_chats(1), of "team\<lparr>admins := []\<rparr>" 7]
    by (simp add: run p)
qed

section \<open>One-to-one chats\<close>

lemma sortUserIds_commute: "sortUserIds a b = sortUserIds b a"
  by (auto simp: sortUserIds_def)

lemma bob_upper_facts:
  "hex24 (Some bob_upper)" "hex_cast bob_upper = Some bob" "bob_upper \<noteq> []" "bob_upper \<noteq> bob"
  by (simp_all add: hex_cast_def hex24_def hex_digit_def bob_upper_def bob_def to_lower_def)

lemma store_users:
  "User_findById hex_env store alice = Inr (Some (user_of alice ''Alice''))"
  "User_findById hex_env store bob = Inr (Some (user_of bob ''Bob''))"
  "User_findById hex_env store carol = Inr (Some (user_of carol ''Carol''))"
  "User_findById hex_env store dave = Inr (Some (user_of dave ''Dave''))"
  "User_findById hex_env store bob_upper = Inr (Some (user_of bob ''Bob''))"
  by (simp_all add: User_findById_def hex_env_simps hex_cast_ids bob_upper_facts)
    (simp_all add: store_defs ids)

lemma store_alice_dave:
  "sortUserIds alice dave = (alice, dave)"
  "filter (\<lambda>c. chatType c = OneToOne \<and> participants c = [alice, dave]) (chats store) = []"
  "Friendship_findAccepted store alice dave = None"
  "Friendship_findAccepted store dave alice = None"
  by (simp_all add: sortUserIds_def Friendship_findAccepted_def store_defs ids)

lemma user_ids:
  "user_id (user_of alice ''Alice'') = alice" "user_id (user_of bob ''Bob'') = bob"
  "user_id (user_of dave ''Dave'') = dave"
  by (simp_all add: user_of_def)

text \<open>
  Claim C2. When a one-to-one chat with the sorted pair of two users as its participant
  array is stored, \<^verbatim>\<open>createOneToOneChat\<close> called by either of them for the other, under
  any spelling of the id that finds the user, answers OK "Chat already exists" with one
  and the same stored chat, whose participant array is exactly the sorted pair, and
  leaves the store as it was: no chat is created. When the store holds no other chat of
  that type and pair, the chat returned is that one.
\<close>

theorem createOneToOneChat_returns_existing:
  assumes "isValidObjectId m (Some ra)" and "ra \<noteq> []"
    and "isValidObjectId m (Some rb)" and "rb \<noteq> []"
    and "User_findById m d ra = Inr (Some ua)" and "User_findById m d rb = Inr (Some ub)"
    and "c \<in> set (chats d)" and "chatType c = OneToOne"
    and "participants c = [fst (sortUserIds (user_id ua) (user_id ub)),
                           snd (sortUserIds (user_id ua) (user_id ub))]"
  shows "\<exists>t. t \<in> set (chats d) \<and> chatType t = OneToOne
           \<and> participants t = [fst (sortUserIds (user_id ua) (user_id ub)),
                               snd (sortUserIds (user_id ua) (user_id ub))]
           \<and> ((\<forall>x \<in> set (chats d). chatType x = OneToOne \<and> participants x = participants c
                  \<longrightarrow> x = c) \<longrightarrow> t = c)
           \<and> createOneToOneChat m d ua (Some rb) fresh1 now1 =
               (Inr (ApiResponse OK ''Chat already exists''
                       (ChatFound t (lookup_messages d t) [ua, ub])), d)
           \<and> createOneToOneChat m d ub (Some ra) fresh2 now2 =
               (Inr (ApiResponse OK ''Chat already exists''
                       (ChatFound t (lookup_messages d t) [ub, ua])), d)"
proof -
  obtain s l where sl: "sortUserIds (user_id ua) (user_id ub) = (s, l)"
    by (cases "sortUserIds (user_id ua) (user_id ub)")
  then have ls: "sortUserIds (user_id ub) (user_id ua) = (s, l)"
    by (simp add: sortUserIds_commute)
  let ?P = "\<lambda>x. chatType x = OneToOne \<and> participants x = [s, l]"
  have "c \<in> set (filter ?P (chats d))" using assms(7-9) sl by simp
  then obtain t ts where f: "filter ?P (chats d) = t # ts"
    by (cases "filter ?P (chats d)") auto
  then have "t \<in> set (filter ?P (chats d))" by simp
  then have t: "t \<in> set (chats d)" "chatType t = OneToOne" "participants t = [s, l]" by simp_all
  have 1: "createOneToOneChat m d ua (Some rb) fresh1 now1 =
      (Inr (ApiResponse OK ''Chat already exists'' (ChatFound t (lookup_messages d t) [ua, ub])), d)"
    using assms(1-6) sl f by (simp add: createOneToOneChat_def)
  have 2: "createOneToOneChat m d ub (Some ra) fresh2 now2 =
      (Inr (ApiResponse OK ''Chat already exists'' (ChatFound t (lookup_messages d t) [ub, ua])), d)"
    using assms(1-6) ls f by (simp add: createOneToOneChat_def)
  show ?thesis
    using t 1 2 sl assms(9) by (intro exI [of _ t]) auto
qed

text \<open>
  Alice asks for Bob, spelling his id in upper case, then Bob for Alice: both get the
  stored chat of the two.
\<close>

theorem createOneToOneChat_returns_existing_witness:
  "User_findById hex_env store alice = Inr (Some (user_of alice ''Alice''))
   \<and> User_findById hex_env store bob_upper = Inr (Some (user_of bob ''Bob''))
   \<and> talk \<in> set (chats store) \<and> participants talk = [alice, bob]
   \<and> sortUserIds bob alice = (alice, bob)
   \<and> createOneToOneChat hex_env store (user_of alice ''Alice'') (Some bob_upper) new_id 7 =
       (Inr (ApiResponse OK ''Chat already exists''
               (ChatFound talk [\<lparr>msg_id = hello_id, messageType = ''text'', content = ''hello''\<rparr>]
                  [user_of alice ''Alice'', user_of bob ''Bob''])), store)
   \<and> createOneToOneChat hex_env store (user_of bob ''Bob'') (Some alice) new_id 8 =
       (Inr (ApiResponse OK ''Chat already exists''
               (ChatFound talk [\<lparr>msg_id = hello_id, messageType = ''text'', content = ''hello''\<rparr>]
                  [user_of bob ''Bob'', user_of alice ''Alice''])), store)"
proof -
  have s: "sortUserIds alice bob = (alice, bob)" "sortUserIds bob alice = (alice, bob)"
    by (simp_all add: sortUserIds_def ids)
  have p: "participants talk = [alice, bob]" "chatType talk = OneToOne"
    by (simp_all add: talk_def)
  have m: "talk \<in> set (chats store)" by (simp add: store_def)
  have u: "\<forall>x \<in> set (chats store). chatType x = OneToOne \<and> participants x = participants talk
             \<longrightarrow> x = talk"
    by (simp add: store_def team_def solo_def)
  have l: "lookup_messages store talk =
      [\<lparr>msg_id = hello_id, messageType = ''text'', content = ''hello''\<rparr>]"
    by (simp add: lookup_messages_def store_def talk_def)
  have e: "alice \<noteq> []" by (simp add: ids)
  from createOneToOneChat_returns_existing [of hex_env alice bob_upper store
      "user_of alice ''Alice''" "user_of bob ''Bob''" talk new_id 7 new_id 8]
  obtain t where "t = talk"
    and "createOneToOneChat hex_env store (user_of alice ''Alice'') (Some bob_upper) new_id 7 =
       (Inr (ApiResponse OK ''Chat already exists''
               (ChatFound t (lookup_messages store t) [user_of alice ''Alice'', user_of bob ''Bob''])), store)"
    and "createOneToOneChat hex_env store (user_of bob ''Bob'') (Some alice) new_id 8 =
       (Inr (ApiResponse OK ''Chat already exists''
               (ChatFound t (lookup_messages store t) [user_of bob ''Bob'', user_of alice ''Alice''])), store)"
    using hex_env_simps hex24_ids bob_upper_facts e store_users m p s u user_ids by auto
  then show ?thesis
    using store_users m p s l by simp
qed

text \<open>
  Claim C5, as the code has it. When the target user exists, no one-to-one chat of the
  sorted pair is stored and no accepted friendship between the two is stored in either
  order, \<^verbatim>\<open>createOneToOneChat\<close> fails with status \<^verbatim>\<open>BAD_REQUEST\<close> and the message
  "You can only chat with friends", and the store is unchanged: no chat is created.
  \<^verbatim>\<open>BAD_REQUEST\<close> is the status of a malformed input, the specification's
  \<open>ValidationError\<close>.
\<close>

theorem createOneToOneChat_not_friends_bad_request:
  assumes "isValidObjectId m (Some rb)" and "rb \<noteq> []"
    and "User_findById m d rb = Inr (Some ub)"
    and "\<forall>c \<in> set (chats d). \<not> (chatType c = OneToOne
            \<and> participants c = [fst (sortUserIds (user_id ua) (user_id ub)),
                                snd (sortUserIds (user_id ua) (user_id ub))])"
    and "\<forall>f \<in> set (friendships d). status f = ''accepted'' \<longrightarrow>
            \<not> (userOneId f = user_id ua \<and> userTwoId f = user_id ub)
            \<and> \<not> (userOneId f = user_id ub \<and> userTwoId f = user_id ua)"
  shows "createOneToOneChat m d ua (Some rb) fresh now =
           (Inl (ApiError BAD_REQUEST ''You can only chat with friends''), d)
         \<and> status_class BAD_REQUEST = Some ValidationError"
proof -
  obtain s l where sl: "sortUserIds (user_id ua) (user_id ub) = (s, l)"
    by (cases "sortUserIds (user_id ua) (user_id ub)")
  have nochat: "filter (\<lambda>c. chatType c = OneToOne \<and> participants c = [s, l]) (chats d) = []"
    using assms(4) sl by (auto simp: filter_empty_conv)
  have "(s = user_id ua \<and> l = user_id ub) \<or> (s = user_id ub \<and> l = user_id ua)"
    using sl by (auto simp: sortUserIds_def split: if_splits)
  then have nofriend: "Friendship_findAccepted d s l = None"
    using assms(5) by (auto simp: Friendship_findAccepted_def find_None_iff)
  show ?thesis
    using assms(1-3) sl nochat nofriend by (simp add: createOneToOneChat_def)
qed

text \<open>Alice asks for Dave, who is no friend of hers.\<close>

theorem createOneToOneChat_not_friends_bad_request_witness:
  "User_findById hex_env store dave = Inr (Some (user_of dave ''Dave''))
   \<and> Friendship_findAccepted store alice dave = None
   \<and> Friendship_findAccepted store dave alice = None
   \<and> createOneToOneChat hex_env store (user_of alice ''Alice'') (Some dave) new_id 7 =
       (Inl (ApiError BAD_REQUEST ''You can only chat with friends''), store)
   \<and> status_class BAD_REQUEST = Some ValidationError"
proof -
  have e: "dave \<noteq> []" by (simp add: ids)
  have c: "\<forall>c \<in> set (chats store). \<not> (chatType c = OneToOne
            \<and> participants c = [fst (sortUserIds alice dave), snd (sortUserIds alice dave)])"
    by (simp add: store_alice_dave) (simp add: store_defs ids)
  have f: "\<forall>f \<in> set (friendships store). status f = ''accepted'' \<longrightarrow>
            \<not> (userOneId f = alice \<and> userTwoId f = dave)
            \<and> \<not> (userOneId f = dave \<and> userTwoId f = alice)"
    by (simp add: store_defs ids)
  show ?thesis
    using createOneToOneChat_not_friends_bad_request [of hex_env dave store "user_of dave ''Dave''"
        "user_of alice ''Alice''" new_id 7] hex24_ids store_users e c f
    by (simp add: user_ids hex_env_simps store_alice_dave)
qed

text \<open>
  Claim C5, as it is written, fails: for Alice and Dave the target exists, there is no
  chat and no friendship, and the error carries \<^verbatim>\<open>BAD_REQUEST\<close>, which is not the
  \<open>Forbidden\<close> class; a malformed user id is answered with the same status.
\<close>

theorem createOneToOneChat_not_friends_not_forbidden:
  "User_findById hex_env store dave = Inr (Some (user_of dave ''Dave''))
   \<and> filter (\<lambda>c. chatType c = OneToOne \<and> participants c = [alice, dave]) (chats store) = []
   \<and> Friendship_findAccepted store alice dave = None
   \<and> Friendship_findAccepted store dave alice = None
   \<and> fst (createOneToOneChat hex_env store (user_of alice ''Alice'') (Some dave) new_id 7) =
       Inl (ApiError BAD_REQUEST ''You can only chat with friends'')
   \<and> status_class BAD_REQUEST \<noteq> Some Forbidden
   \<and> fst (createOneToOneChat hex_env store (user_of alice ''Alice'') (Some ''xyz'') new_id 7) =
       Inl (ApiError BAD_REQUEST ''Invalid user id'')"
proof -
  have e: "dave \<noteq> []" by (simp add: ids)
  show ?thesis
    using e by (simp add: createOneToOneChat_def store_users hex_env_simps hex24_ids user_ids
        store_alice_dave)
qed

section \<open>Renaming a group\<close>

text \<open>
  Claim C6, as the code has it. For an \<^verbatim>\<open>updateGroupName\<close> call whose new name is not
  blank and whose group id is a valid object id: when \<^verbatim>\<open>findById\<close>, which casts the id,
  finds no chat, or the chat it finds is no group, the call fails with \<^verbatim>\<open>NOT_FOUND\<close>;
  when the actor is not among the admins of the group it finds, the call fails with
  \<^verbatim>\<open>UNAUTHORIZED\<close>, the \<open>Forbidden\<close> class, and the store, and with it the stored chat,
  is unchanged.
\<close>

theorem updateGroupName_errors:
  assumes "\<not> blank gname" and "isValidObjectId m (Some gid1)" and "isValidObjectId m (Some gid2)"
  shows "((Chat_findById m d gid1 = Inr None
            \<or> (\<exists>g. Chat_findById m d gid1 = Inr (Some g) \<and> chatType g \<noteq> Group))
            \<longrightarrow> updateGroupName m d actor gname (Some gid1) now =
                  (Inl (ApiError NOT_FOUND ''Group chat not found''), d)
                \<and> status_class NOT_FOUND = Some NotFound)
         \<and> (\<forall>g. Chat_findById m d gid2 = Inr (Some g) \<and> chatType g = Group
                   \<and> actor \<notin> set (admins g)
            \<longrightarrow> updateGroupName m d actor gname (Some gid2) now =
                  (Inl (ApiError UNAUTHORIZED ''Only admins can change group name''), d)
                \<and> status_class UNAUTHORIZED = Some Forbidden
                \<and> Chat_findById m (snd (updateGroupName m d actor gname (Some gid2) now)) gid2 =
                     Inr (Some g))"
  using assms by (auto simp: updateGroupName_def)

text \<open>
  Carol, no admin of the team, renames a chat that does not exist, then the team, whose
  id she spells in upper case.
\<close>

theorem updateGroupName_errors_witness:
  "Chat_findById hex_env store none_id = Inr None
   \<and> Chat_findById hex_env store team_id_upper = Inr (Some team) \<and> carol \<notin> set (admins team)
   \<and> updateGroupName hex_env store carol (Some ''Crew'') (Some none_id) 7 =
       (Inl (ApiError NOT_FOUND ''Group chat not found''), store)
   \<and> updateGroupName hex_env store carol (Some ''Crew'') (Some team_id_upper) 7 =
       (Inl (ApiError UNAUTHORIZED ''Only admins can change group name''), store)
   \<and> status_class UNAUTHORIZED = Some Forbidden"
proof -
  have p: "chatType team = Group" "carol \<notin> set (admins team)"
    by (simp_all add: team_def ids)
  have b: "\<not> blank (Some ''Crew'')" by (simp add: blank_def js_trim_def js_space_def)
  show ?thesis
    using updateGroupName_errors [of "Some ''Crew''" hex_env none_id team_id_upper store carol 7]
      b hex24_ids store_chats p
    by (simp add: hex_env_simps)
qed

text \<open>
  Claim C6, as it is written for every call, fails: the name and the id are checked
  before the lookup, so a call with a blank name, or with an id that is no object id,
  for a chat that does not exist fails with \<^verbatim>\<open>BAD_REQUEST\<close>, not with \<open>NotFound\<close>.
\<close>

theorem updateGroupName_blank_name_not_NotFound:
  "Chat_findById hex_env store none_id = Inr None
   \<and> updateGroupName hex_env store carol (Some '' '') (Some none_id) 7 =
       (Inl (ApiError BAD_REQUEST ''Group name is required''), store)
   \<and> status_class BAD_REQUEST \<noteq> Some NotFound
   \<and> ''xyz'' \<notin> set (map chat_id (chats store))
   \<and> updateGroupName hex_env store carol (Some ''Crew'') (Some ''xyz'') 7 =
       (Inl (ApiError BAD_REQUEST ''Invalid group id''), store)"
proof -
  have b: "blank (Some '' '')" "\<not> blank (Some ''Crew'')"
    by (simp_all add: blank_def js_trim_def js_space_def)
  have f: "''xyz'' \<notin> set (map chat_id (chats store))"
    by (simp add: store_defs ids)
  show ?thesis
    using b f by (simp add: updateGroupName_def store_chats hex_env_simps hex24_ids)
qed

section \<open>Paging and searching\<close>

lemma page_of_simps:
  "page_of None = 1" "n < 1 \<Longrightarrow> page_of (Some n) = 1" "1 \<le> n \<Longrightarrow> page_of (Some n) = n"
  by (simp_all add: page_of_def)

lemma page_slice_first: "length xs \<le> 50 \<Longrightarrow> page_slice 1 xs = xs"
  by (simp add: page_slice_def limit_def)

lemma team_matches:
  "pattern_ok ''team''" "pattern_ok ''T..m''" "subject_ok ''Team''" "subject_ok ''Solo''"
  "regex_search ''team'' ''Team''" "regex_search ''T..m'' ''Team''"
  "\<not> blank (Some ''team'')" "\<not> blank (Some ''T..m'')"
  "\<not> contains_ci ''T..m'' ''Team''" "contains_ci ''team'' ''Team''"
  by (simp_all add: pattern_ok_def subject_ok_def printable_def pcre_meta_def
      to_lower_def blank_def js_trim_def js_space_def contains_ci_def sublist_code)

lemma team_matched:
  "mongo_regex_i m ''team'' ''Team''" "mongo_regex_i m ''T..m'' ''Team''"
  "regex_accepts m ''team''" "regex_accepts m ''T..m''"
  by (simp_all add: mongo_regex_i_def regex_accepts_def team_matches to_lower_def)

lemma many_counts:
  "filter (\<lambda>c. chatType c = Group \<and> alice \<in> set (participants c)
               \<and> (case groupName c of None \<Rightarrow> False | Some x \<Rightarrow> mongo_regex_i m ''team'' x))
     (chats many) = chats many"
  "filter (\<lambda>c. alice \<in> set (participants c)) (chats many) = chats many"
  "length (chats many) = 51"
  by (simp_all add: many_def team_def team_matched)

lemma refused_pattern:
  "blank (Some '' '')" "\<not> blank (Some ''('')" "\<not> regex_accepts hex_env ''(''"
  by (simp_all add: blank_def js_trim_def js_space_def regex_accepts_def pattern_ok_def
      pcre_meta_def hex_env_def)

text \<open>
  Claim C7. In both paginated queries the page size is 50. \<^verbatim>\<open>searchGroupChat\<close> fails
  on a query that is absent or blank, and raises when the server does not take the query
  as a pattern; every other call, and every \<^verbatim>\<open>getAllChats\<close> call, succeeds, and for a
  requested page \<open>n \<ge> 1\<close> its \<^verbatim>\<open>hasMore\<close> flag is true exactly when \<open>n * 50\<close> is below
  the total it reports, which is the number of chats the query matches. A requested page
  below 1, and a page that is not a number, give the very answer of page 1.
\<close>

theorem pagination_hasMore:
  "(1 \<le> n \<longrightarrow>
      (blank qb \<longrightarrow>
         searchGroupChat m d u qb (Some n) =
           (Inl (ApiError BAD_REQUEST ''Please provide a search query''), d))
      \<and> (\<not> blank (Some qr) \<and> \<not> regex_accepts m qr \<longrightarrow>
           searchGroupChat m d u (Some qr) (Some n) = (Inl (MongoServerError qr), d))
      \<and> (\<not> blank (Some q) \<and> regex_accepts m q \<longrightarrow>
           (\<exists>rows total. searchGroupChat m d u (Some q) (Some n) =
              (Inr (ApiResponse OK ''Search in groups success''
                      (GroupSearch rows total (n * 50 < int total))), d)
              \<and> total = length (filter (\<lambda>c. chatType c = Group \<and> u \<in> set (participants c)
                                 \<and> (case groupName c of None \<Rightarrow> False
                                     | Some x \<Rightarrow> mongo_regex_i m q x)) (chats d))))
      \<and> (\<exists>rows total us. getAllChats d u (Some n) =
            (Inr (ApiResponse OK ''Get all chats success''
                    (ChatList rows total (n * 50 < int total) us)), d)
            \<and> total = length (filter (\<lambda>c. u \<in> set (participants c)) (chats d))))
   \<and> (k < 1 \<longrightarrow>
        searchGroupChat m d u s (Some k) = searchGroupChat m d u s (Some 1)
      \<and> getAllChats d u (Some k) = getAllChats d u (Some 1))
   \<and> searchGroupChat m d u s None = searchGroupChat m d u s (Some 1)
   \<and> getAllChats d u None = getAllChats d u (Some 1)"
proof (intro conjI impI)
  assume "blank qb"
  then show "searchGroupChat m d u qb (Some n) =
      (Inl (ApiError BAD_REQUEST ''Please provide a search query''), d)"
    by (simp add: searchGroupChat_def)
next
  assume "\<not> blank (Some qr) \<and> \<not> regex_accepts m qr"
  then show "searchGroupChat m d u (Some qr) (Some n) = (Inl (MongoServerError qr), d)"
    by (simp add: searchGroupChat_def Let_def)
next
  assume n: "1 \<le> n" and "\<not> blank (Some q) \<and> regex_accepts m q"
  then show "\<exists>rows total. searchGroupChat m d u (Some q) (Some n) =
              (Inr (ApiResponse OK ''Search in groups success''
                      (GroupSearch rows total (n * 50 < int total))), d)
              \<and> total = length (filter (\<lambda>c. chatType c = Group \<and> u \<in> set (participants c)
                                 \<and> (case groupName c of None \<Rightarrow> False
                                     | Some x \<Rightarrow> mongo_regex_i m q x)) (chats d))"
    by (simp add: searchGroupChat_def Let_def page_of_simps limit_def)
next
  assume n: "1 \<le> n"
  then show "\<exists>rows total us. getAllChats d u (Some n) =
            (Inr (ApiResponse OK ''Get all chats success''
                    (ChatList rows total (n * 50 < int total) us)), d)
            \<and> total = length (filter (\<lambda>c. u \<in> set (participants c)) (chats d))"
    by (simp add: getAllChats_def Let_def page_of_simps limit_def)
next
  assume k: "k < 1"
  then show "searchGroupChat m d u s (Some k) = searchGroupChat m d u s (Some 1)"
    and "getAllChats d u (Some k) = getAllChats d u (Some 1)"
    by (simp_all add: searchGroupChat_def getAllChats_def page_of_simps Let_def split: option.splits)
next
  show "searchGroupChat m d u s None = searchGroupChat m d u s (Some 1)"
    and "getAllChats d u None = getAllChats d u (Some 1)"
    by (simp_all add: searchGroupChat_def getAllChats_def page_of_simps Let_def split: option.splits)
qed

text \<open>
  A blank query and an unbalanced parenthesis fail; page 1 of 51 matching chats has more;
  page 0 and a missing page are page 1.
\<close>

theorem pagination_hasMore_witness:
  "searchGroupChat hex_env many alice (Some '' '') (Some 1) =
       (Inl (ApiError BAD_REQUEST ''Please provide a search query''), many)
   \<and> searchGroupChat hex_env many alice (Some ''('') (Some 1) =
       (Inl (MongoServerError ''(''), many)
   \<and> (\<exists>rows. searchGroupChat hex_env many alice (Some ''team'') (Some 1) =
       (Inr (ApiResponse OK ''Search in groups success'' (GroupSearch rows 51 True)), many))
   \<and> (\<exists>rows us. getAllChats many alice (Some 1) =
       (Inr (ApiResponse OK ''Get all chats success'' (ChatList rows 51 True us)), many))
   \<and> searchGroupChat hex_env many alice (Some ''team'') (Some 0) =
       searchGroupChat hex_env many alice (Some ''team'') (Some 1)
   \<and> getAllChats many alice (Some 0) = getAllChats many alice (Some 1)
   \<and> getAllChats many alice None = getAllChats many alice (Some 1)"
  using pagination_hasMore [of 1 "Some '' ''" hex_env many alice "''(''" "''team''" 0 "Some ''team''"]
  by (simp add: many_counts team_matches team_matched refused_pattern)

text \<open>
  On a pattern without a dot the modelled matcher is containment of the pattern, letters
  compared without case.
\<close>

lemma match_here_plain:
  "CHR ''.'' \<notin> set p \<Longrightarrow> match_here p s = prefix (map to_lower p) (map to_lower s)"
  by (induction p s rule: match_here.induct) auto

lemma regex_search_plain:
  "CHR ''.'' \<notin> set p \<Longrightarrow> regex_search p s = sublist (map to_lower p) (map to_lower s)"
proof (induction s)
  case Nil
  then show ?case by (cases p) auto
next
  case (Cons c cs)
  then show ?case by (simp add: match_here_plain sublist_Cons_right)
qed

lemma plain_pattern:
  assumes "list_all (\<lambda>c. printable c \<and> \<not> pcre_meta c) q"
  shows "pattern_ok q" and "CHR ''.'' \<notin> set q"
proof -
  show "pattern_ok q" using assms by (auto simp: pattern_ok_def list_all_iff)
  have "pcre_meta (CHR ''.'')" by (simp add: pcre_meta_def)
  then show "CHR ''.'' \<notin> set q" using assms by (auto simp: list_all_iff)
qed

lemma mongo_regex_i_plain:
  assumes "list_all (\<lambda>c. printable c \<and> \<not> pcre_meta c) q" and "subject_ok n"
  shows "mongo_regex_i m q n = contains_ci q n"
  using assms plain_pattern [OF assms(1)]
  by (simp add: mongo_regex_i_def contains_ci_def regex_search_plain)

lemma store_groups_of_alice:
  "filter (\<lambda>c. chatType c = Group \<and> alice \<in> set (participants c)
               \<and> (case groupName c of None \<Rightarrow> False | Some n \<Rightarrow> n = ''Team'')) (chats store) = [team]"
  "groupName team = Some ''Team''" "groupIcon team = None" "chat_id team = team_id"
  "chatType team = Group"
  by (simp_all add: store_defs ids)

lemma store_groups_containing:
  "groups_containing store alice ''team'' = [team]"
  "groups_containing store alice ''T..m'' = []"
  by (simp_all add: groups_containing_def store_def)
    (simp_all add: team_def talk_def solo_def ids team_matches contains_ci_def to_lower_def sublist_code)

lemma store_names_ok:
  "\<forall>c \<in> set (chats store). chatType c = Group \<and> alice \<in> set (participants c) \<longrightarrow>
           (case groupName c of None \<Rightarrow> True | Some n \<Rightarrow> subject_ok n)"
  by (simp add: store_defs team_matches)

text \<open>
  Claim C8, as the code has it. For a \<^verbatim>\<open>searchGroupChat\<close> call whose query is not
  blank, is printable ASCII and has no regular-expression metacharacter: the call
  succeeds; the answer holds the requested page, of at most 50, of the matched chats in
  stored order, and their total; only group chats of the actor that have a name are
  matched; a chat whose name is printable ASCII is matched exactly when it is a group
  chat in which the actor is a participant and its name contains the query as a
  substring without regard to case. So when every group name of the actor is printable
  ASCII, the matched chats are exactly the group chats of the actor whose name contains
  the query, and when there are at most 50 of them page 1 holds them all.
\<close>

theorem searchGroupChat_plain_query:
  assumes "\<not> blank (Some q)"
    and "list_all (\<lambda>c. printable c \<and> \<not> pcre_meta c) q"
    and "n = (case page of None \<Rightarrow> 1 | Some k \<Rightarrow> max 1 k)"
  shows "\<exists>P. searchGroupChat m d u (Some q) page =
           (Inr (ApiResponse OK ''Search in groups success''
                   (GroupSearch
                      (map (\<lambda>c. (chat_id c, chatType c, groupName c, groupIcon c))
                         (take 50 (drop (nat ((n - 1) * 50)) (filter P (chats d)))))
                      (length (filter P (chats d)))
                      (n * 50 < int (length (filter P (chats d)))))), d)
         \<and> (\<forall>c \<in> set (chats d). P c \<longrightarrow>
               chatType c = Group \<and> u \<in> set (participants c) \<and> groupName c \<noteq> None)
         \<and> (\<forall>c \<in> set (chats d). \<forall>x. groupName c = Some x \<and> subject_ok x \<longrightarrow>
               (P c \<longleftrightarrow> chatType c = Group \<and> u \<in> set (participants c) \<and> contains_ci q x))
         \<and> ((\<forall>c \<in> set (chats d). chatType c = Group \<and> u \<in> set (participants c) \<longrightarrow>
                (case groupName c of None \<Rightarrow> True | Some x \<Rightarrow> subject_ok x))
              \<longrightarrow> filter P (chats d) = groups_containing d u q)
         \<and> (n = 1 \<and> length (filter P (chats d)) \<le> 50 \<longrightarrow>
              take 50 (drop (nat ((n - 1) * 50)) (filter P (chats d))) = filter P (chats d))"
proof -
  let ?P = "\<lambda>c. chatType c = Group \<and> u \<in> set (participants c)
                 \<and> (case groupName c of None \<Rightarrow> False | Some x \<Rightarrow> mongo_regex_i m q x)"
  have pg: "page_of page = n"
    using assms(3) by (auto simp: page_of_def Let_def max_def split: option.splits)
  have acc: "regex_accepts m q"
    using plain_pattern(1) [OF assms(2)] by (simp add: regex_accepts_def)
  have run: "searchGroupChat m d u (Some q) page =
           (Inr (ApiResponse OK ''Search in groups success''
                   (GroupSearch
                      (map (\<lambda>c. (chat_id c, chatType c, groupName c, groupIcon c))
                         (take 50 (drop (nat ((n - 1) * 50)) (filter ?P (chats d)))))
                      (length (filter ?P (chats d)))
                      (n * 50 < int (length (filter ?P (chats d)))))), d)"
    using assms(1) acc pg by (simp add: searchGroupChat_def Let_def limit_def page_slice_def)
  have a: "\<forall>c \<in> set (chats d). ?P c \<longrightarrow>
               chatType c = Group \<and> u \<in> set (participants c) \<and> groupName c \<noteq> None"
    by (auto split: option.splits)
  have b: "\<forall>c \<in> set (chats d). \<forall>x. groupName c = Some x \<and> subject_ok x \<longrightarrow>
               (?P c \<longleftrightarrow> chatType c = Group \<and> u \<in> set (participants c) \<and> contains_ci q x)"
    using mongo_regex_i_plain [OF assms(2)] by auto
  have c: "filter ?P (chats d) = groups_containing d u q"
    if "\<forall>c \<in> set (chats d). chatType c = Group \<and> u \<in> set (participants c) \<longrightarrow>
                (case groupName c of None \<Rightarrow> True | Some x \<Rightarrow> subject_ok x)"
    unfolding groups_containing_def
    using that mongo_regex_i_plain [OF assms(2)]
    by (intro filter_cong) (auto split: option.splits)
  have e: "n = 1 \<and> length (filter ?P (chats d)) \<le> 50 \<longrightarrow>
              take 50 (drop (nat ((n - 1) * 50)) (filter ?P (chats d))) = filter ?P (chats d)"
    by simp
  show ?thesis
    using run a b c e by (intro exI [of _ ?P] conjI impI) blast+
qed

text \<open>Alice searches for "team" and finds the group named "Team".\<close>

theorem searchGroupChat_plain_query_witness:
  "\<not> blank (Some ''team'')
   \<and> groups_containing store alice ''team'' = [team]
   \<and> searchGroupChat hex_env store alice (Some ''team'') (Some 0) =
       (Inr (ApiResponse OK ''Search in groups success''
               (GroupSearch [(team_id, Group, Some ''Team'', None)] 1 False)), store)"
proof -
  have plain: "list_all (\<lambda>c. printable c \<and> \<not> pcre_meta c) ''team''"
    by (simp add: printable_def pcre_meta_def)
  have n: "(1::int) = (case Some 0 of None \<Rightarrow> 1 | Some k \<Rightarrow> max 1 k)" by simp
  from searchGroupChat_plain_query [OF team_matches(7) plain n, of hex_env store alice]
  obtain P where run: "searchGroupChat hex_env store alice (Some ''team'') (Some 0) =
           (Inr (ApiResponse OK ''Search in groups success''
                   (GroupSearch
                      (map (\<lambda>c. (chat_id c, chatType c, groupName c, groupIcon c))
                         (take 50 (drop (nat ((1 - 1) * 50)) (filter P (chats store)))))
                      (length (filter P (chats store)))
                      (1 * 50 < int (length (filter P (chats store)))))), store)"
    and all: "(\<forall>c \<in> set (chats store). chatType c = Group \<and> alice \<in> set (participants c) \<longrightarrow>
                (case groupName c of None \<Rightarrow> True | Some n \<Rightarrow> subject_ok n))
              \<longrightarrow> filter P (chats store) = groups_containing store alice ''team''"
    by blast
  from all store_names_ok have "filter P (chats store) = [team]"
    by (simp add: store_groups_containing)
  with run show ?thesis
    by (simp add: team_matches store_groups_containing store_groups_of_alice)
qed

text \<open>
  A query with dots stays in the modelled part of \<^verbatim>\<open>$regex\<close> on Alice's groups, so the
  answer to it is the same in every environment.
\<close>

lemma search_dots_any_engine:
  "searchGroupChat m store alice (Some ''T..m'') (Some 1) =
     (Inr (ApiResponse OK ''Search in groups success''
             (GroupSearch [(team_id, Group, Some ''Team'', None)] 1 False)), store)"
proof -
  have slice: "page_slice 1 [team] = [team]" by (simp add: page_slice_first)
  have hits: "filter (\<lambda>c. chatType c = Group \<and> alice \<in> set (participants c)
               \<and> (case groupName c of None \<Rightarrow> False | Some n \<Rightarrow> mongo_regex_i m ''T..m'' n))
       (chats store) = [team]"
    by (simp add: store_def)
      (simp add: team_def talk_def solo_def ids mongo_regex_i_def team_matches to_lower_def)
  show ?thesis
    by (simp add: searchGroupChat_def Let_def team_matches team_matched hits page_of_simps
        slice limit_def store_groups_of_alice)
qed

text \<open>
  Claim C8, as it is written for arbitrary queries, fails: the query is handed to
  \<^verbatim>\<open>$regex\<close> as a pattern. Alice's query "T..m" returns the group named "Team",
  whose name does not contain "T..m"; by containment the result would be empty.
\<close>

theorem searchGroupChat_pattern_not_substring:
  "searchGroupChat hex_env store alice (Some ''T..m'') (Some 1) =
     (Inr (ApiResponse OK ''Search in groups success''
             (GroupSearch [(team_id, Group, Some ''Team'', None)] 1 False)), store)
   \<and> groupName team = Some ''Team''
   \<and> \<not> contains_ci ''T..m'' ''Team''
   \<and> groups_containing store alice ''T..m'' = []"
  by (simp add: search_dots_any_engine store_groups_of_alice team_matches store_groups_containing)

section \<open>Creating a group\<close>

text \<open>
  The handler counts the documents its two queries return. When no two stored documents
  share the key, as many documents as keys means a document for every key.
\<close>

lemma counted_all:
  assumes "distinct (map k (filter Q xs))"
    and "\<forall>x \<in> set (filter Q xs). k x \<in> set ys"
    and "length (filter Q xs) = length ys"
    and "y \<in> set ys"
  shows "\<exists>x \<in> set xs. Q x \<and> k x = y"
proof -
  let ?K = "k ` set (filter Q xs)"
  have sub: "?K \<subseteq> set ys" using assms(2) by auto
  have "card ?K = length (map k (filter Q xs))"
    using distinct_card [OF assms(1)] by simp
  then have "card ?K = length ys" using assms(3) by simp
  moreover have "card (set ys) \<le> length ys" by (rule card_length)
  ultimately have "card (set ys) \<le> card ?K" by simp
  then have "?K = set ys" using sub by (intro card_seteq) auto
  then have "y \<in> ?K" using assms(4) by blast
  then show ?thesis by auto
qed

lemma filter_all_of_length: "length xs = length (filter P xs) \<Longrightarrow> filter P xs = xs"
  by (metis filter_True length_filter_less less_irrefl)

lemma distinct_map_filter_conj:
  assumes "distinct (map k (filter A xs))"
  shows "distinct (map k (filter (\<lambda>x. B x \<and> A x) xs))"
proof -
  have "filter (\<lambda>x. B x \<and> A x) xs = filter B (filter A xs)"
    by (simp add: conj_commute)
  then show ?thesis using assms by (simp only: distinct_map_filter)
qed

text \<open>The casts of \<^verbatim>\<open>createGroupChat\<close>, and what a successful call has gone through.\<close>

lemma cast_all_iff: "cast_all m xs = Inr ks \<longleftrightarrow> map (castObjectId m) xs = map Some ks"
proof (induction xs arbitrary: ks)
  case Nil
  then show ?case by auto
next
  case (Cons x xs)
  show ?case
  proof (cases "castObjectId m x")
    case None
    then show ?thesis by (cases ks) auto
  next
    case (Some k)
    show ?thesis
    proof (cases "cast_all m xs")
      case (Inl e)
      with Cons Some show ?thesis by (cases ks) auto
    next
      case (Inr ls)
      with Cons Some show ?thesis by (cases ks) auto
    qed
  qed
qed

lemma cast_all_length: "cast_all m xs = Inr ks \<Longrightarrow> length ks = length xs"
  by (metis cast_all_iff length_map)

lemma cast_all_snoc:
  assumes "cast_all m (xs @ [x]) = Inr zs" and "cast_all m xs = Inr ks"
    and "castObjectId m x = Some k"
  shows "zs = ks @ [k]"
proof -
  have "map Some zs = map Some (ks @ [k])"
    using assms by (simp add: cast_all_iff)
  moreover have "inj (Some :: oid \<Rightarrow> oid option)" by simp
  ultimately show ?thesis by (simp only: inj_map_eq_map)
qed

lemma cast_pairs_cover:
  assumes "cast_pairs m (map (\<lambda>pId. if pId < me then (pId, me) else (me, pId)) named) = Inr pairs"
    and "cast_all m named = Inr ids" and "castObjectId m me = Some me'"
  shows "length pairs = length named
         \<and> (\<forall>k \<in> set ids. (k, me') \<in> set pairs \<or> (me', k) \<in> set pairs)"
  using assms
proof (induction named arbitrary: pairs ids)
  case Nil
  then show ?case by auto
next
  case (Cons p ps)
  from Cons.prems(2) obtain k ks where k: "castObjectId m p = Some k" "cast_all m ps = Inr ks"
      "ids = k # ks"
    by (auto split: option.splits sum.splits)
  from Cons.prems(1) k(1) Cons.prems(3) obtain qs where
      q: "cast_pairs m (map (\<lambda>pId. if pId < me then (pId, me) else (me, pId)) ps) = Inr qs"
      "pairs = (if p < me then (k, me') else (me', k)) # qs"
    by (auto split: if_splits sum.splits)
  from Cons.IH [OF q(1) k(2) Cons.prems(3)] q(2) k(3) show ?case by auto
qed

lemma cast_pairs_me:
  assumes "cast_pairs m (map (\<lambda>pId. if pId < me then (pId, me) else (me, pId)) (p # ps)) = Inr pairs"
  shows "\<exists>me'. castObjectId m me = Some me'"
  using assms by (auto split: if_splits option.splits)

lemma createGroupChat_Inr:
  assumes "createGroupChat m d me ps gname fresh now = (Inr r, d')"
  shows "\<exists>named ids pairs members firstAdmins.
      ps = Some named \<and> \<not> blank gname \<and> 2 \<le> length named
      \<and> filter (\<lambda>i. isValidObjectId m (Some i)) named = named
      \<and> cast_all m named = Inr ids
      \<and> length (filter (\<lambda>u. user_id u \<in> set ids) (users d)) = length named
      \<and> cast_pairs m (map (\<lambda>pId. if pId < user_id me then (pId, user_id me)
                                  else (user_id me, pId)) named) = Inr pairs
      \<and> length (filter (\<lambda>f. (userOneId f, userTwoId f) \<in> set pairs \<and> status f = ''accepted'')
                  (friendships d)) = length named
      \<and> cast_all m (named @ [user_id me]) = Inr members
      \<and> cast_all m [user_id me] = Inr firstAdmins
      \<and> r = ApiResponse CREATED ''Group chat created''
              (ChatCreated ((Chat_defaults fresh now)\<lparr>chatType := Group, participants := members,
                               groupName := gname, admins := firstAdmins\<rparr>)
                 (filter (\<lambda>u. user_id u \<in> set ids) (users d) @ [me]))
      \<and> d' = Chat_create d ((Chat_defaults fresh now)\<lparr>chatType := Group,
                               participants := members, groupName := gname,
                               admins := firstAdmins\<rparr>)"
proof -
  from assms obtain named where ps: "ps = Some named"
    by (cases ps) (auto simp: createGroupChat_def Let_def split: if_splits)
  from assms ps have b: "\<not> blank gname" "2 \<le> length named"
      "length named = length (filter (\<lambda>i. isValidObjectId m (Some i)) named)"
    by (auto simp: createGroupChat_def Let_def split: if_splits)
  from b(3) have v: "filter (\<lambda>i. isValidObjectId m (Some i)) named = named"
    by (rule filter_all_of_length)
  show ?thesis
    using assms ps b(1,2) v unfolding createGroupChat_def Let_def
    by (simp split: if_splits sum.splits)
qed

lemma createGroupChat_succeeds:
  assumes "\<not> blank gname" and "2 \<le> length named"
    and "filter (\<lambda>i. isValidObjectId m (Some i)) named = named"
    and "cast_all m named = Inr ids"
    and "length (filter (\<lambda>u. user_id u \<in> set ids) (users d)) = length named"
    and "cast_pairs m (map (\<lambda>pId. if pId < user_id me then (pId, user_id me)
                                  else (user_id me, pId)) named) = Inr pairs"
    and "length (filter (\<lambda>f. (userOneId f, userTwoId f) \<in> set pairs \<and> status f = ''accepted'')
                  (friendships d)) = length named"
    and "cast_all m (named @ [user_id me]) = Inr members"
    and "cast_all m [user_id me] = Inr firstAdmins"
  shows "createGroupChat m d me (Some named) gname fresh now =
     (Inr (ApiResponse CREATED ''Group chat created''
             (ChatCreated ((Chat_defaults fresh now)\<lparr>chatType := Group,
                              participants := members,
                              groupName := gname, admins := firstAdmins\<rparr>)
                (filter (\<lambda>u. user_id u \<in> set ids) (users d) @ [me]))),
      Chat_create d ((Chat_defaults fresh now)\<lparr>chatType := Group,
                              participants := members,
                              groupName := gname, admins := firstAdmins\<rparr>))"
  using assms unfolding createGroupChat_def Let_def by simp

text \<open>Alice's call for a group with Bob and Carol, on the store and on the store with the
  doubled friendship.\<close>

lemma store_distinct:
  "distinct (map user_id (users store))"
  "distinct (map (\<lambda>f. (userOneId f, userTwoId f))
              (filter (\<lambda>f. status f = ''accepted'') (friendships store)))"
  by (simp_all add: store_defs ids)

lemma store_not_friends:
  "Friendship_findAccepted store bob carol = None"
  "Friendship_findAccepted store carol bob = None"
  by (simp_all add: Friendship_findAccepted_def store_defs ids)

lemma crew_steps:
  "\<not> blank (Some ''Crew'')"
  "2 \<le> length [bob, carol]"
  "filter (\<lambda>i. isValidObjectId hex_env (Some i)) [bob, carol] = [bob, carol]"
  "cast_all hex_env [bob, carol] = Inr [bob, carol]"
  "cast_pairs hex_env (map (\<lambda>pId. if pId < alice then (pId, alice) else (alice, pId)) [bob, carol])
     = Inr [(alice, bob), (alice, carol)]"
  "cast_all hex_env ([bob, carol] @ [alice]) = Inr [bob, carol, alice]"
  "cast_all hex_env [alice] = Inr [alice]"
proof -
  show "\<not> blank (Some ''Crew'')" by (simp add: blank_def js_trim_def js_space_def)
  show "2 \<le> length [bob, carol]" by simp
  show "filter (\<lambda>i. isValidObjectId hex_env (Some i)) [bob, carol] = [bob, carol]"
    by (simp add: hex_env_simps hex24_ids)
  show "cast_all hex_env [bob, carol] = Inr [bob, carol]"
    by (simp add: hex_env_simps hex_cast_ids)
  have o: "\<not> bob < alice" "\<not> carol < alice" by (simp_all add: ids)
  show "cast_pairs hex_env (map (\<lambda>pId. if pId < alice then (pId, alice) else (alice, pId)) [bob, carol])
     = Inr [(alice, bob), (alice, carol)]"
    by (simp add: o hex_env_simps hex_cast_ids)
  show "cast_all hex_env ([bob, carol] @ [alice]) = Inr [bob, carol, alice]"
    by (simp add: hex_env_simps hex_cast_ids)
  show "cast_all hex_env [alice] = Inr [alice]"
    by (simp add: hex_env_simps hex_cast_ids)
qed

lemma crew_found:
  "filter (\<lambda>u. user_id u \<in> set [bob, carol]) (users store) =
      [user_of bob ''Bob'', user_of carol ''Carol'']"
  "users twice = users store"
  by (simp_all add: store_defs ids twice_def)

lemma crew_friends:
  "length (filter (\<lambda>f. (userOneId f, userTwoId f) \<in> set [(alice, bob), (alice, carol)]
                        \<and> status f = ''accepted'') (friendships store)) = length [bob, carol]"
  "length (filter (\<lambda>f. (userOneId f, userTwoId f) \<in> set [(alice, bob), (alice, carol)]
                        \<and> status f = ''accepted'') (friendships twice)) = length [bob, carol]"
  by (simp_all add: store_def twice_def friends_of_def)

lemma alice_user_id: "user_id (user_of alice ''Alice'') = alice"
  by (simp add: user_of_def)

lemma crew_built:
  "(Chat_defaults new_id 7)\<lparr>chatType := Group, participants := [bob, carol, alice],
         groupName := Some ''Crew'', admins := [alice]\<rparr> = crew"
  by (simp add: Chat_defaults_def crew_def)

lemma createGroupChat_crew:
  "createGroupChat hex_env store (user_of alice ''Alice'') (Some [bob, carol]) (Some ''Crew'') new_id 7 =
     (Inr (ApiResponse CREATED ''Group chat created''
             (ChatCreated crew [user_of bob ''Bob'', user_of carol ''Carol'', user_of alice ''Alice''])),
      Chat_create store crew)"
proof -
  have f: "length (filter (\<lambda>u. user_id u \<in> set [bob, carol]) (users store)) = length [bob, carol]"
    by (simp only: crew_found) simp
  note run = createGroupChat_succeeds [of "Some ''Crew''" "[bob, carol]" hex_env "[bob, carol]" store
      "user_of alice ''Alice''" "[(alice, bob), (alice, carol)]" "[bob, carol, alice]" "[alice]"
      new_id 7, unfolded alice_user_id,
      OF crew_steps(1-4) f crew_steps(5) crew_friends(1) crew_steps(6,7)]
  show ?thesis
    using run unfolding crew_built crew_found(1) by simp
qed

lemma createGroupChat_crew_twice:
  "createGroupChat hex_env twice (user_of alice ''Alice'') (Some [bob, carol]) (Some ''Crew'') new_id 7 =
     (Inr (ApiResponse CREATED ''Group chat created''
             (ChatCreated crew [user_of bob ''Bob'', user_of carol ''Carol'', user_of alice ''Alice''])),
      Chat_create twice crew)"
proof -
  have f: "length (filter (\<lambda>u. user_id u \<in> set [bob, carol]) (users twice)) = length [bob, carol]"
    by (simp only: crew_found) simp
  note run = createGroupChat_succeeds [of "Some ''Crew''" "[bob, carol]" hex_env "[bob, carol]" twice
      "user_of alice ''Alice''" "[(alice, bob), (alice, carol)]" "[bob, carol, alice]" "[alice]"
      new_id 7, unfolded alice_user_id,
      OF crew_steps(1-4) f crew_steps(5) crew_friends(2) crew_steps(6,7)]
  show ?thesis
    using run unfolding crew_built crew_found by simp
qed

lemma pick_named:
  assumes "\<exists>named ids me' g. ps = Some named \<and> cast_all m named = Inr ids
      \<and> castObjectId m me = Some me' \<and> (\<forall>k \<in> set ids. A k \<and> B k me') \<and> R named ids me' g"
    and "ps = Some xs" and "cast_all m xs = Inr ks" and "castObjectId m me = Some i"
    and "x \<in> set ks"
  shows "B x i"
  using assms by auto

text \<open>
  Claim C9, as the code has it. On a store in which user ids are unique and no two
  accepted friendships are for the same pair, \<^verbatim>\<open>createGroupChat\<close> succeeds only when
  every named participant id casts to the id of a stored user who has an accepted
  friendship with the requester. A successful call appends exactly one chat to the
  stored chats and changes nothing else: a group under the fresh id whose participants
  are the named ids followed by the requester and whose admin list is the requester
  alone.
\<close>

theorem createGroupChat_success:
  assumes "distinct (map user_id (users d))"
    and "distinct (map (\<lambda>f. (userOneId f, userTwoId f))
                   (filter (\<lambda>f. status f = ''accepted'') (friendships d)))"
    and "createGroupChat m d me ps gname fresh now = (Inr r, d')"
  shows "\<exists>named ids me' g. ps = Some named \<and> cast_all m named = Inr ids
     \<and> castObjectId m (user_id me) = Some me'
     \<and> (\<forall>k \<in> set ids.
           (\<exists>u \<in> set (users d). user_id u = k)
         \<and> (\<exists>f \<in> set (friendships d). status f = ''accepted''
               \<and> ((userOneId f = k \<and> userTwoId f = me')
                  \<or> (userOneId f = me' \<and> userTwoId f = k))))
     \<and> chat_id g = fresh \<and> chatType g = Group \<and> participants g = ids @ [me']
     \<and> set (participants g) = set ids \<union> {me'}
     \<and> admins g = [me'] \<and> groupName g = gname
     \<and> chats d' = chats d @ [g] \<and> users d' = users d
     \<and> friendships d' = friendships d \<and> messages d' = messages d
     \<and> (\<exists>us. r = ApiResponse CREATED ''Group chat created'' (ChatCreated g us))"
proof -
  let ?me = "user_id me"
  let ?key = "\<lambda>f. (userOneId f, userTwoId f)"
  from createGroupChat_Inr [OF assms(3)]
  have "\<exists>named ids pairs members firstAdmins.
      ps = Some named \<and> 2 \<le> length named
      \<and> cast_all m named = Inr ids
      \<and> length (filter (\<lambda>u. user_id u \<in> set ids) (users d)) = length named
      \<and> cast_pairs m (map (\<lambda>pId. if pId < ?me then (pId, ?me) else (?me, pId)) named) =
           Inr pairs
      \<and> length (filter (\<lambda>f. ?key f \<in> set pairs \<and> status f = ''accepted'')
                  (friendships d)) = length named
      \<and> cast_all m (named @ [?me]) = Inr members
      \<and> cast_all m [?me] = Inr firstAdmins
      \<and> r = ApiResponse CREATED ''Group chat created''
              (ChatCreated ((Chat_defaults fresh now)\<lparr>chatType := Group, participants := members,
                               groupName := gname, admins := firstAdmins\<rparr>)
                 (filter (\<lambda>u. user_id u \<in> set ids) (users d) @ [me]))
      \<and> d' = Chat_create d ((Chat_defaults fresh now)\<lparr>chatType := Group,
                               participants := members, groupName := gname,
                               admins := firstAdmins\<rparr>)"
    by (elim exE conjE) (intro exI conjI, assumption+)
  then obtain named ids pairs members firstAdmins where
    ps: "ps = Some named" and two: "2 \<le> length named"
    and ids: "cast_all m named = Inr ids"
    and lu: "length (filter (\<lambda>u. user_id u \<in> set ids) (users d)) = length named"
    and cp: "cast_pairs m (map (\<lambda>pId. if pId < ?me then (pId, ?me) else (?me, pId)) named) =
        Inr pairs"
    and lf: "length (filter (\<lambda>f. ?key f \<in> set pairs \<and> status f = ''accepted'')
                  (friendships d)) = length named"
    and mem: "cast_all m (named @ [?me]) = Inr members"
    and adm: "cast_all m [?me] = Inr firstAdmins"
    and r: "r = ApiResponse CREATED ''Group chat created''
              (ChatCreated ((Chat_defaults fresh now)\<lparr>chatType := Group, participants := members,
                               groupName := gname, admins := firstAdmins\<rparr>)
                 (filter (\<lambda>u. user_id u \<in> set ids) (users d) @ [me]))"
    and d': "d' = Chat_create d ((Chat_defaults fresh now)\<lparr>chatType := Group,
                               participants := members, groupName := gname,
                               admins := firstAdmins\<rparr>)"
    by (elim exE conjE)
  from two obtain p rest where "named = p # rest" by (cases named) auto
  with cp obtain me' where me': "castObjectId m ?me = Some me'"
    using cast_pairs_me by blast
  from adm me' have fa: "firstAdmins = [me']" by (auto split: sum.splits)
  from mem ids me' have mb: "members = ids @ [me']" by (rule cast_all_snoc)
  from cast_pairs_cover [OF cp ids me']
  have lp: "length pairs = length named"
    and cover: "\<forall>k \<in> set ids. (k, me') \<in> set pairs \<or> (me', k) \<in> set pairs"
    by simp_all
  have li: "length ids = length named" using ids by (rule cast_all_length)
  have du: "distinct (map user_id (filter (\<lambda>u. user_id u \<in> set ids) (users d)))"
    using assms(1) by (rule distinct_map_filter)
  have df: "distinct (map ?key (filter (\<lambda>f. ?key f \<in> set pairs \<and> status f = ''accepted'')
      (friendships d)))"
    using assms(2) by (rule distinct_map_filter_conj)
  have each: "(\<exists>u \<in> set (users d). user_id u = k)
         \<and> (\<exists>f \<in> set (friendships d). status f = ''accepted''
               \<and> ((userOneId f = k \<and> userTwoId f = me') \<or> (userOneId f = me' \<and> userTwoId f = k)))"
    if k: "k \<in> set ids" for k
  proof
    have "\<exists>u \<in> set (users d). user_id u \<in> set ids \<and> user_id u = k"
      using du _ _ k by (rule counted_all) (simp_all add: lu li)
    then show "\<exists>u \<in> set (users d). user_id u = k" by blast
    from cover k obtain y where y: "y \<in> set pairs" "y = (k, me') \<or> y = (me', k)" by blast
    have "\<exists>f \<in> set (friendships d). (?key f \<in> set pairs \<and> status f = ''accepted'') \<and> ?key f = y"
      using df _ _ y(1) by (rule counted_all) (simp_all add: lf lp)
    then obtain f where f: "f \<in> set (friendships d)" "status f = ''accepted''" "?key f = y"
      by blast
    from f(3) y(2) have "(userOneId f = k \<and> userTwoId f = me') \<or> (userOneId f = me' \<and> userTwoId f = k)"
      by auto
    with f(1,2) show "\<exists>f \<in> set (friendships d). status f = ''accepted''
               \<and> ((userOneId f = k \<and> userTwoId f = me') \<or> (userOneId f = me' \<and> userTwoId f = k))"
      by blast
  qed
  let ?g = "(Chat_defaults fresh now)\<lparr>chatType := Group, participants := ids @ [me'],
              groupName := gname, admins := [me']\<rparr>"
  have g: "chat_id ?g = fresh" "chatType ?g = Group" "participants ?g = ids @ [me']"
    "set (participants ?g) = set ids \<union> {me'}" "admins ?g = [me']" "groupName ?g = gname"
    by (simp_all add: Chat_defaults_def)
  have s: "chats d' = chats d @ [?g]" "users d' = users d" "friendships d' = friendships d"
    "messages d' = messages d"
    using d' fa mb by (simp_all add: Chat_create_def)
  have rr: "\<exists>us. r = ApiResponse CREATED ''Group chat created'' (ChatCreated ?g us)"
    using r fa mb by simp
  have all: "\<forall>k \<in> set ids.
           (\<exists>u \<in> set (users d). user_id u = k)
         \<and> (\<exists>f \<in> set (friendships d). status f = ''accepted''
               \<and> ((userOneId f = k \<and> userTwoId f = me')
                  \<or> (userOneId f = me' \<and> userTwoId f = k)))"
    using each by (intro ballI)
  show ?thesis
    apply (rule exI [of _ named], rule exI [of _ ids], rule exI [of _ me'], rule exI [of _ ?g])
    apply (intro conjI)
                   apply (rule ps ids me' all g s rr)+
    done
qed

text \<open>
  Alice creates a group with Bob and Carol, who are her friends and not each other's.
\<close>

theorem createGroupChat_success_witness:
  "createGroupChat hex_env store (user_of alice ''Alice'') (Some [bob, carol]) (Some ''Crew'') new_id 7 =
     (Inr (ApiResponse CREATED ''Group chat created''
             (ChatCreated crew [user_of bob ''Bob'', user_of carol ''Carol'', user_of alice ''Alice''])),
      Chat_create store crew)
   \<and> participants crew = [bob, carol, alice] \<and> admins crew = [alice]
   \<and> chats (Chat_create store crew) = [team, talk, solo, crew]
   \<and> Friendship_findAccepted store bob carol = None
   \<and> Friendship_findAccepted store carol bob = None
   \<and> (\<exists>f \<in> set (friendships store). status f = ''accepted''
         \<and> ((userOneId f = bob \<and> userTwoId f = alice) \<or> (userOneId f = alice \<and> userTwoId f = bob)))
   \<and> (\<exists>f \<in> set (friendships store). status f = ''accepted''
         \<and> ((userOneId f = carol \<and> userTwoId f = alice) \<or> (userOneId f = alice \<and> userTwoId f = carol)))"
proof -
  have c: "participants crew = [bob, carol, alice]" "admins crew = [alice]"
    "chats (Chat_create store crew) = [team, talk, solo, crew]"
    by (simp_all add: crew_def Chat_create_def store_def)
  have a: "castObjectId hex_env alice = Some alice"
    by (simp add: hex_env_simps hex_cast_ids)
  note made = createGroupChat_success [OF store_distinct createGroupChat_crew,
      unfolded alice_user_id]
  have b: "\<exists>f \<in> set (friendships store). status f = ''accepted''
         \<and> ((userOneId f = bob \<and> userTwoId f = alice) \<or> (userOneId f = alice \<and> userTwoId f = bob))"
    by (rule pick_named [OF made refl crew_steps(4) a]) simp
  have k: "\<exists>f \<in> set (friendships store). status f = ''accepted''
         \<and> ((userOneId f = carol \<and> userTwoId f = alice) \<or> (userOneId f = alice \<and> userTwoId f = carol))"
    by (rule pick_named [OF made refl crew_steps(4) a]) simp
  show ?thesis
    using createGroupChat_crew store_not_friends c b k by (intro conjI)
qed

text \<open>
  Claim C9, as it is written for every store, fails: the handler compares the number of
  accepted friendship documents with the number of named ids. Where the friendship of
  Alice and Bob is stored twice and no friendship of Carol is stored at all, Alice's call
  for a group with Bob and Carol succeeds and Carol is a participant.
\<close>

theorem createGroupChat_counts_duplicates:
  "createGroupChat hex_env twice (user_of alice ''Alice'') (Some [bob, carol]) (Some ''Crew'') new_id 7 =
     (Inr (ApiResponse CREATED ''Group chat created''
             (ChatCreated crew [user_of bob ''Bob'', user_of carol ''Carol'', user_of alice ''Alice''])),
      Chat_create twice crew)
   \<and> carol \<in> set (participants crew)
   \<and> friendships twice = [friends_of alice bob, friends_of alice bob]
   \<and> filter (\<lambda>f. userOneId f = carol \<or> userTwoId f = carol) (friendships twice) = []"
proof -
  have "carol \<in> set (participants crew)" by (simp add: crew_def)
  moreover have "friendships twice = [friends_of alice bob, friends_of alice bob]"
    by (simp add: twice_def)
  moreover have "filter (\<lambda>f. userOneId f = carol \<or> userTwoId f = carol) (friendships twice) = []"
    by (simp add: twice_def friends_of_def ids)
  ultimately show ?thesis using createGroupChat_crew_twice by (intro conjI)
qed

text \<open>
  The conditions are also enough: a non-blank name and at least two valid ids that cast
  to distinct ids of stored users, each with an accepted friendship with the requester
  stored under the pair as the handler orders it, make the call succeed. Nothing is
  asked of the named users among themselves.
\<close>

lemma length_filter_keys:
  assumes "distinct (map k xs)" and "distinct ys" and "set ys \<subseteq> k ` set xs"
  shows "length (filter (\<lambda>x. k x \<in> set ys) xs) = length ys"
proof -
  let ?F = "filter (\<lambda>x. k x \<in> set ys) xs"
  have d: "distinct (map k ?F)" using assms(1) by (rule distinct_map_filter)
  have "set (map k ?F) = set ys" using assms(3) by auto
  then have "card (set (map k ?F)) = card (set ys)" by simp
  then have "length (map k ?F) = length ys"
    using distinct_card [OF d] distinct_card [OF assms(2)] by simp
  then show ?thesis by simp
qed

lemma cast_pairs_zip:
  assumes "cast_all m named = Inr ids" and "castObjectId m me = Some me'"
  shows "cast_pairs m (map (\<lambda>pId. if pId < me then (pId, me) else (me, pId)) named) =
           Inr (map (\<lambda>(p, k). if p < me then (k, me') else (me', k)) (zip named ids))"
  using assms
proof (induction named arbitrary: ids)
  case Nil
  then show ?case by simp
next
  case (Cons p ps)
  from Cons.prems(1) obtain k ks where k: "castObjectId m p = Some k" "cast_all m ps = Inr ks"
      "ids = k # ks"
    by (auto split: option.splits sum.splits)
  from Cons.IH [OF k(2) Cons.prems(2)] k Cons.prems(2) show ?case by simp
qed

lemma sorted_pairs_distinct:
  assumes "distinct ids" and "length named = length ids"
  shows "distinct (map (\<lambda>(p, k). if p < (me::string) then (k, me') else (me', k)) (zip named ids))"
proof -
  let ?f = "\<lambda>(p, k). if p < me then (k, me') else (me', k)"
  let ?h = "\<lambda>(x, y). if x = me' then y else x"
  have "map ?h (map ?f (zip named ids)) = map snd (zip named ids)"
    by (auto split: prod.splits)
  also have "\<dots> = ids" using assms(2) by simp
  finally have "distinct (map ?h (map ?f (zip named ids)))" using assms(1) by simp
  then show ?thesis by (simp only: distinct_map)
qed

lemma createGroupChat_succeeds_when:
  assumes "distinct (map user_id (users d))"
    and "distinct (map (\<lambda>f. (userOneId f, userTwoId f))
                   (filter (\<lambda>f. status f = ''accepted'') (friendships d)))"
    and "\<not> blank gname" and "2 \<le> length named"
    and "\<forall>p \<in> set named. isValidObjectId m (Some p)"
    and "cast_all m named = Inr ids" and "distinct ids"
    and "castObjectId m (user_id me) = Some me'"
    and "\<forall>k \<in> set ids. \<exists>u \<in> set (users d). user_id u = k"
    and "\<forall>(p, k) \<in> set (zip named ids).
           \<exists>f \<in> set (friendships d). status f = ''accepted''
              \<and> (userOneId f, userTwoId f) = (if p < user_id me then (k, me') else (me', k))"
  shows "\<exists>g us. createGroupChat m d me (Some named) gname fresh now =
           (Inr (ApiResponse CREATED ''Group chat created'' (ChatCreated g us)), Chat_create d g)"
proof -
  let ?key = "\<lambda>f. (userOneId f, userTwoId f)"
  let ?acc = "filter (\<lambda>f. status f = ''accepted'') (friendships d)"
  let ?pairs = "map (\<lambda>(p, k). if p < user_id me then (k, me') else (me', k)) (zip named ids)"
  have li: "length ids = length named" using assms(6) by (rule cast_all_length)
  have v: "filter (\<lambda>i. isValidObjectId m (Some i)) named = named"
    using assms(5) by (simp add: filter_id_conv)
  have "set ids \<subseteq> user_id ` set (users d)" using assms(9) by force
  with assms(1,7) have "length (filter (\<lambda>u. user_id u \<in> set ids) (users d)) = length ids"
    by (rule length_filter_keys)
  then have u: "length (filter (\<lambda>u. user_id u \<in> set ids) (users d)) = length named"
    using li by simp
  have cp: "cast_pairs m (map (\<lambda>pId. if pId < user_id me then (pId, user_id me)
      else (user_id me, pId)) named) = Inr ?pairs"
    using assms(6,8) by (rule cast_pairs_zip)
  have dp: "distinct ?pairs" using assms(7) li by (intro sorted_pairs_distinct) simp_all
  have "set ?pairs \<subseteq> ?key ` set ?acc"
  proof
    fix x assume "x \<in> set ?pairs"
    then obtain p k where pk: "(p, k) \<in> set (zip named ids)"
        "x = (if p < user_id me then (k, me') else (me', k))" by auto
    with assms(10) obtain f where "f \<in> set (friendships d)" "status f = ''accepted''"
        "?key f = x" by blast
    then have "f \<in> set ?acc" "?key f = x" by simp_all
    then show "x \<in> ?key ` set ?acc" by blast
  qed
  with assms(2) dp have "length (filter (\<lambda>f. ?key f \<in> set ?pairs) ?acc) = length ?pairs"
    by (rule length_filter_keys)
  moreover have "filter (\<lambda>f. ?key f \<in> set ?pairs) ?acc =
      filter (\<lambda>f. ?key f \<in> set ?pairs \<and> status f = ''accepted'') (friendships d)"
    by (simp only: filter_filter conj_commute)
  ultimately have f: "length (filter (\<lambda>f. ?key f \<in> set ?pairs
      \<and> status f = ''accepted'') (friendships d)) = length named"
    using li by (simp only: length_map length_zip min.idem)
  have mem: "cast_all m (named @ [user_id me]) = Inr (ids @ [me'])"
    using assms(6,8) by (simp add: cast_all_iff)
  have adm: "cast_all m [user_id me] = Inr [me']" using assms(8) by simp
  show ?thesis
    using createGroupChat_succeeds [OF assms(3,4) v assms(6) u cp f mem adm, of fresh now]
    by blast
qed

end
